theory Spec2Isabelle
  imports Main "HOL-Library.Word"
begin

section \<open>JavaScript strings\<close>

text \<open>
  A JavaScript string is a sequence of UTF-16 code units.  Literals of the source that are
  plain ASCII are written with \<open>asc\<close>; the pictographs of the fixed messages are written
  as the code units they consist of.
\<close>

type_synonym unit16 = "16 word"
type_synonym jsstring = "unit16 list"

definition asc :: "string \<Rightarrow> jsstring" where
  "asc cs = map of_char cs"

text \<open>\<open>\d\<close> of a regular expression (without the unicode flag): the ten ASCII digits.\<close>

definition isDigit :: "unit16 \<Rightarrow> bool" where
  "isDigit c = (0x30 \<le> c \<and> c \<le> 0x39)"

text \<open>
  The code units that \<open>String.prototype.trim\<close> and \<open>parseInt\<close> strip: WhiteSpace and
  LineTerminator of ECMAScript (tab, LF, VT, FF, CR, space, NBSP, the Unicode space
  separators, LS, PS and the byte order mark).
\<close>

definition isWhiteSpace :: "unit16 \<Rightarrow> bool" where
  "isWhiteSpace c =
     (c = 0x09 \<or> c = 0x0A \<or> c = 0x0B \<or> c = 0x0C \<or> c = 0x0D \<or> c = 0x20 \<or> c = 0xA0
      \<or> c = 0x1680 \<or> (0x2000 \<le> c \<and> c \<le> 0x200A) \<or> c = 0x2028 \<or> c = 0x2029
      \<or> c = 0x202F \<or> c = 0x205F \<or> c = 0x3000 \<or> c = 0xFEFF)"

definition trim :: "jsstring \<Rightarrow> jsstring" where
  "trim s = rev (dropWhile isWhiteSpace (rev (dropWhile isWhiteSpace s)))"

subsection \<open>Numbers\<close>

text \<open>
  The JavaScript numbers that the code computes with are whole: \<open>Finite i\<close> is the double
  whose value is the integer \<open>i\<close>.  Beside them there are \<open>NaN\<close> and the two infinities.
  (The two zeros are not told apart; the code never divides.)
\<close>

datatype number = NaN | Finite int | PosInfinity | NegInfinity

definition isNaN :: "number \<Rightarrow> bool" where
  "isNaN n = (n = NaN)"

text \<open>The number of binary digits of a natural number.\<close>

fun bitLength :: "nat \<Rightarrow> nat" where
  "bitLength n = (if n = 0 then 0 else Suc (bitLength (n div 2)))"

text \<open>
  The double nearest to a natural number, as a natural number: up to \<open>2^53\<close> every one
  is a double; beyond, 53 binary digits are kept and the rest is rounded, a tie to the
  even neighbour.
\<close>

definition roundNat :: "nat \<Rightarrow> nat" where
  "roundNat m =
     (if m \<le> 2 ^ 53 then m
      else
        let ulp = 2 ^ (bitLength m - 53);
            q = m div ulp;
            r = m mod ulp
        in (if 2 * r < ulp \<or> (2 * r = ulp \<and> even q) then q else q + 1) * ulp)"

text \<open>The largest double.\<close>

definition maxDouble :: nat where
  "maxDouble = 2 ^ 1024 - 2 ^ 971"

text \<open>The number for an integer: the nearest double, an infinity when that is out of range.\<close>

definition toNumber :: "int \<Rightarrow> number" where
  "toNumber i =
     (if maxDouble < roundNat (nat \<bar>i\<bar>)
      then (if i < 0 then NegInfinity else PosInfinity)
      else Finite (if i < 0 then - int (roundNat (nat \<bar>i\<bar>)) else int (roundNat (nat \<bar>i\<bar>))))"

text \<open>\<open>n - k\<close> and \<open>n + k\<close> for an integer \<open>k\<close>: the exact result, rounded.\<close>

fun minus_num :: "number \<Rightarrow> int \<Rightarrow> number" where
  "minus_num (Finite i) k = toNumber (i - k)"
| "minus_num n k = n"

fun plus_num :: "number \<Rightarrow> int \<Rightarrow> number" where
  "plus_num (Finite i) k = toNumber (i + k)"
| "plus_num n k = n"

definition digitValue :: "unit16 \<Rightarrow> int" where
  "digitValue c = int (unat c) - 48"

definition decimal :: "jsstring \<Rightarrow> int" where
  "decimal ds = foldl (\<lambda>acc c. 10 * acc + digitValue c) 0 ds"

text \<open>
  \<open>parseInt(s, 10)\<close>: leading white space is skipped, one sign is read, then the longest
  run of digits; no digit there gives \<open>NaN\<close>.  The result is the number for the integer
  that the digits denote.  (ECMAScript lets an engine read the digits after the twentieth
  as zeros; the model reads every digit.)
\<close>

definition parseInt :: "jsstring \<Rightarrow> number" where
  "parseInt s =
     (let t = dropWhile isWhiteSpace s;
          neg = (t \<noteq> [] \<and> hd t = 0x2D);
          u = (if t \<noteq> [] \<and> (hd t = 0x2D \<or> hd t = 0x2B) then tl t else t);
          ds = takeWhile isDigit u
      in if ds = [] then NaN else toNumber (if neg then - decimal ds else decimal ds))"

subsection \<open>Numbers as text\<close>

text \<open>The decimal digits of a natural number.\<close>

function natString :: "nat \<Rightarrow> jsstring" where
  "natString n =
     (if n < 10 then [0x30 + of_nat n]
      else natString (n div 10) @ [0x30 + of_nat (n mod 10)])"
  by pat_completeness auto
termination
  by (relation "measure (\<lambda>n. n)") auto

text \<open>
  \<open>Number.prototype.toString\<close> writes the fewest digits that still denote the number:
  integers \<open>n\<close>, \<open>k\<close> and \<open>s\<close> with \<open>s\<close> of \<open>k\<close> digits, \<open>k\<close> as small as can be, such
  that \<open>s * 10^(n - k)\<close> rounds to the number, and of two such \<open>s\<close> the one nearer to it.
  \<open>shortest x n k\<close> looks for them from \<open>k\<close> digits on, for a double \<open>x\<close> of \<open>n\<close> decimal
  digits; the result is \<open>(n, k, s)\<close>.
\<close>

function shortest :: "nat \<Rightarrow> nat \<Rightarrow> nat \<Rightarrow> nat \<times> nat \<times> nat" where
  "shortest x n k =
     (if n \<le> k then (n, n, x)
      else
        let p = 10 ^ (n - k);
            lo = x div p;
            hi = lo + 1;
            okLo = (roundNat (lo * p) = x);
            okHi = (roundNat (hi * p) = x);
            useLo = (okLo \<and> (\<not> okHi \<or> x - lo * p < hi * p - x
                       \<or> (x - lo * p = hi * p - x \<and> even lo)))
        in if useLo then (n, k, lo)
           else if okHi then (if hi < 10 ^ k then (n, k, hi) else (Suc n, 1, 1))
           else shortest x n (Suc k))"
  by pat_completeness auto
termination
  by (relation "measure (\<lambda>(x, n, k). n - k)") auto

text \<open>
  The text of a positive whole double: its digits followed by zeros up to 21 digits in
  all, the exponent form beyond.
\<close>

definition positiveString :: "nat \<Rightarrow> jsstring" where
  "positiveString x =
     (let (n, k, s) = shortest x (length (natString x)) 1 in
      if n \<le> 21 then natString s @ replicate (n - k) 0x30
      else if k = 1 then natString s @ asc ''e+'' @ natString (n - 1)
      else hd (natString s) # 0x2E # tl (natString s) @ asc ''e+'' @ natString (n - 1))"

fun numberString :: "number \<Rightarrow> jsstring" where
  "numberString NaN = asc ''NaN''"
| "numberString PosInfinity = asc ''Infinity''"
| "numberString NegInfinity = asc ''-Infinity''"
| "numberString (Finite i) =
     (if i = 0 then asc ''0''
      else if i < 0 then 0x2D # positiveString (nat (- i))
      else positiveString (nat i))"

section \<open>Regular expressions of the source\<close>

text \<open>A literal piece of a pattern, matched at the start of the text; the rest is returned.\<close>

fun literal :: "jsstring \<Rightarrow> jsstring \<Rightarrow> jsstring option" where
  "literal [] s = Some s"
| "literal (p # ps) [] = None"
| "literal (p # ps) (c # cs) = (if p = c then literal ps cs else None)"

text \<open>
  A pattern without the global flag finds the leftmost position at which it matches:
  \<open>m\<close> tries the pattern at the start of a text.
\<close>

fun leftmost :: "(jsstring \<Rightarrow> 'a option) \<Rightarrow> jsstring \<Rightarrow> 'a option" where
  "leftmost m [] = m []"
| "leftmost m (c # cs) = (case m (c # cs) of Some r \<Rightarrow> Some r | None \<Rightarrow> leftmost m cs)"

text \<open>
  \<open>/at (\d+):(\d+)/\<close> tried at the start of a text, giving the two groups.  Each \<open>\d+\<close>
  is greedy; a shorter run of digits is followed by a digit, so giving digits back
  never makes the \<open>:\<close> match, and the longest run is the only candidate.
\<close>

definition lineMatch_here :: "jsstring \<Rightarrow> (jsstring \<times> jsstring) option" where
  "lineMatch_here s =
     (case literal (asc ''at '') s of
        None \<Rightarrow> None
      | Some r \<Rightarrow>
          if takeWhile isDigit r = [] then None
          else (case literal (asc '':'') (dropWhile isDigit r) of
                  None \<Rightarrow> None
                | Some r2 \<Rightarrow>
                    if takeWhile isDigit r2 = [] then None
                    else Some (takeWhile isDigit r, takeWhile isDigit r2)))"

text \<open>\<open>errorMessage.match(/at (\d+):(\d+)/)\<close>: groups 1 and 2 of the match, or no match.\<close>

definition lineMatch :: "jsstring \<Rightarrow> (jsstring \<times> jsstring) option" where
  "lineMatch errorMessage = leftmost lineMatch_here errorMessage"

section \<open>The diagnostic position\<close>

text \<open>
  The position that \<open>showErrorWithHighlighting\<close> computes from an error message:
  \<open>line = parseInt(lineMatch[1], 10) - 1\<close> and \<open>col = parseInt(lineMatch[2], 10) - 1\<close>.
  The column is used only when it is not \<open>NaN\<close>.
\<close>

record location =
  line :: number
  column :: number

definition locate :: "jsstring \<Rightarrow> location option" where
  "locate errorMessage =
     (case lineMatch errorMessage of
        None \<Rightarrow> None
      | Some (g1, g2) \<Rightarrow>
          Some \<lparr> line = minus_num (parseInt g1) 1, column = minus_num (parseInt g2) 1 \<rparr>)"

section \<open>Values of a JSON response\<close>

text \<open>
  What \<open>response.json()\<close> can yield.  \<open>JNum i\<close> is a number whose value is the
  integer \<open>i\<close>, which is read as the nearest double; a number that is not whole stands as
  \<open>JFrac\<close>, with the text that \<open>ToString\<close> gives it, which is all the code does with such
  a number.  An object is the list of its own
  properties, a name being looked up from the front; \<open>undefined\<close>, which JSON never
  yields, is the \<open>None\<close> of a property read.
\<close>

datatype jsval =
    JNull
  | JBool bool
  | JNum int
  | JFrac jsstring
  | JStr jsstring
  | JArr "jsval list"
  | JObj "(jsstring \<times> jsval) list"

text \<open>
  What the code can catch: the rejection of \<open>fetch\<close> or of \<open>response.json()\<close>, with
  the \<open>message\<close> of its error, a \<open>TypeError\<close> that the engine raises while the
  response is handled, or the error that the editor throws when it is asked for a line
  that the text does not have.
\<close>

datatype exn = Rejection jsstring | TypeError | NoSuchLine number

text \<open>
  Reading one of the properties \<open>error\<close>, \<open>result\<close>, \<open>bytecode\<close>: \<open>null\<close> has no
  properties at all, an object has its own ones, and no string, number, boolean or array
  has a property of these names.
\<close>

fun getProperty :: "jsval \<Rightarrow> jsstring \<Rightarrow> exn + jsval option" where
  "getProperty JNull k = Inl TypeError"
| "getProperty (JObj fs) k = Inr (map_of fs k)"
| "getProperty v k = Inr None"

text \<open>\<open>ToBoolean\<close>, as \<open>if (v)\<close>, \<open>!v\<close> and \<open>v || w\<close> apply it.\<close>

fun truthy :: "jsval option \<Rightarrow> bool" where
  "truthy None = False"
| "truthy (Some JNull) = False"
| "truthy (Some (JBool b)) = b"
| "truthy (Some (JNum n)) = (n \<noteq> 0)"
| "truthy (Some (JFrac txt)) = True"
| "truthy (Some (JStr s)) = (s \<noteq> [])"
| "truthy (Some (JArr xs)) = True"
| "truthy (Some (JObj fs)) = True"

text \<open>The first exception of a list of results, or all the values.\<close>

fun sequence :: "('e + 'a) list \<Rightarrow> 'e + 'a list" where
  "sequence [] = Inr []"
| "sequence (x # xs) =
     (case x of
        Inl e \<Rightarrow> Inl e
      | Inr v \<Rightarrow> (case sequence xs of Inl e \<Rightarrow> Inl e | Inr vs \<Rightarrow> Inr (v # vs)))"

fun join :: "jsstring \<Rightarrow> jsstring list \<Rightarrow> jsstring" where
  "join sep [] = []"
| "join sep [x] = x"
| "join sep (x # y # ys) = x @ sep @ join sep (y # ys)"

text \<open>
  \<open>ToString\<close>, as a template literal and the \<open>textContent\<close> setter apply it.  An array
  joins its elements with commas, \<open>null\<close> elements as empty strings.  An object of a
  JSON text has no callable property, so one with an own \<open>toString\<close> cannot be converted;
  any other is \<open>[object Object]\<close>.
\<close>

fun toString :: "jsval \<Rightarrow> exn + jsstring" where
  "toString JNull = Inr (asc ''null'')"
| "toString (JBool b) = Inr (if b then asc ''true'' else asc ''false'')"
| "toString (JNum n) = Inr (numberString (toNumber n))"
| "toString (JFrac txt) = Inr txt"
| "toString (JStr s) = Inr s"
| "toString (JArr xs) =
     (case sequence (map (\<lambda>x. if x = JNull then Inr [] else toString x) xs) of
        Inl e \<Rightarrow> Inl e
      | Inr ss \<Rightarrow> Inr (join (asc '','') ss))"
| "toString (JObj fs) =
     (if map_of fs (asc ''toString'') = None then Inr (asc ''[object Object]'')
      else Inl TypeError)"

section \<open>The bytecode highlighter\<close>

text \<open>
  One alternative after the other, as \<open>(A|B)\<close> does: \<open>k\<close> is the rest of the pattern,
  given the alternative that matched and the text after it; when the rest fails the next
  alternative is tried.
\<close>

fun alternatives ::
  "jsstring list \<Rightarrow> (jsstring \<Rightarrow> jsstring \<Rightarrow> 'a option) \<Rightarrow> jsstring \<Rightarrow> 'a option" where
  "alternatives [] k s = None"
| "alternatives (a # as) k s =
     (case literal a s of
        None \<Rightarrow> alternatives as k s
      | Some r \<Rightarrow> (case k a r of Some x \<Rightarrow> Some x | None \<Rightarrow> alternatives as k s))"

text \<open>
  \<open>text.replace(/pattern/g, replacement)\<close>: \<open>m\<close> tries the pattern at the start of a
  text and gives the expanded replacement with the length of the match (never 0 for the
  patterns of the source).  The search goes on behind each match.
\<close>

fun replaceAll :: "(jsstring \<Rightarrow> (jsstring \<times> nat) option) \<Rightarrow> jsstring \<Rightarrow> jsstring" where
  "replaceAll m [] = []"
| "replaceAll m (c # cs) =
     (case m (c # cs) of
        None \<Rightarrow> c # replaceAll m cs
      | Some (rep, n) \<Rightarrow> rep @ replaceAll m (drop (n - 1) cs))"

text \<open>\<open>/Push\(([^)]+)\)/\<close> with \<open>'Push(<span class="bytecode-value">$1</span>)'\<close>.\<close>

definition push_here :: "jsstring \<Rightarrow> (jsstring \<times> nat) option" where
  \<open>push_here s =
     (case literal (asc ''Push('') s of
        None \<Rightarrow> None
      | Some r \<Rightarrow>
          let v = takeWhile (\<lambda>c. c \<noteq> 0x29) r in
          if v = [] then None
          else (case literal (asc '')'') (dropWhile (\<lambda>c. c \<noteq> 0x29) r) of
                  None \<Rightarrow> None
                | Some r2 \<Rightarrow>
                    Some (asc ''Push(<span class="bytecode-value">'' @ v @ asc ''</span>)'',
                          5 + length v + 1)))\<close>

text \<open>\<open>/(Add|Subtract|Multiply|Divide|Negate)/\<close> with \<open>'<span class="bytecode-op">$1</span>'\<close>.\<close>

definition op_here :: "jsstring \<Rightarrow> (jsstring \<times> nat) option" where
  \<open>op_here s =
     alternatives
       [asc ''Add'', asc ''Subtract'', asc ''Multiply'', asc ''Divide'', asc ''Negate'']
       (\<lambda>name r. Some (asc ''<span class="bytecode-op">'' @ name @ asc ''</span>'', length name))
       s\<close>

text \<open>
  \<open>/(Jump|JumpIfFalse)\((\d+)\)/\<close> with
  \<open>'<span class="bytecode-flow">$1</span>(<span class="bytecode-number">$2</span>)'\<close>.
\<close>

definition jump_here :: "jsstring \<Rightarrow> (jsstring \<times> nat) option" where
  \<open>jump_here s =
     alternatives [asc ''Jump'', asc ''JumpIfFalse'']
       (\<lambda>name r.
          case literal (asc ''('') r of
            None \<Rightarrow> None
          | Some r1 \<Rightarrow>
              let d = takeWhile isDigit r1 in
              if d = [] then None
              else (case literal (asc '')'') (dropWhile isDigit r1) of
                      None \<Rightarrow> None
                    | Some r2 \<Rightarrow>
                        Some (asc ''<span class="bytecode-flow">'' @ name
                                @ asc ''</span>(<span class="bytecode-number">'' @ d
                                @ asc ''</span>)'',
                              length name + 1 + length d + 1)))
       s\<close>

text \<open>
  \<open>/(Load|Store)Variable\("([^"]+)"\)/\<close> with
  \<open>'<span class="bytecode-var">$1Variable</span>("$2")'\<close>.
\<close>

definition variable_here :: "jsstring \<Rightarrow> (jsstring \<times> nat) option" where
  \<open>variable_here s =
     alternatives [asc ''Load'', asc ''Store'']
       (\<lambda>name r.
          case literal (asc ''Variable("'') r of
            None \<Rightarrow> None
          | Some r1 \<Rightarrow>
              let v = takeWhile (\<lambda>c. c \<noteq> 0x22) r1 in
              if v = [] then None
              else (case literal (asc ''")'') (dropWhile (\<lambda>c. c \<noteq> 0x22) r1) of
                      None \<Rightarrow> None
                    | Some r2 \<Rightarrow>
                        Some (asc ''<span class="bytecode-var">'' @ name
                                @ asc ''Variable</span>("'' @ v @ asc ''")'',
                              length name + 10 + length v + 2)))
       s\<close>

definition highlightBytecode :: "jsstring \<Rightarrow> jsstring" where
  "highlightBytecode instruction =
     replaceAll variable_here
       (replaceAll jump_here
          (replaceAll op_here
             (replaceAll push_here instruction)))"

text \<open>\<open>index.toString().padStart(2, '0')\<close>\<close>

definition padStart2 :: "jsstring \<Rightarrow> jsstring" where
  "padStart2 s = replicate (2 - length s) 0x30 @ s"

text \<open>
  One line of the listing.  Only a string has \<open>replace\<close>; any other element of the array
  makes the call a \<open>TypeError\<close>.
\<close>

definition bytecodeLine :: "nat \<Rightarrow> jsval \<Rightarrow> exn + jsstring" where
  \<open>bytecodeLine index ln =
     (case ln of
        JStr instruction \<Rightarrow>
          Inr (asc ''<div class="bytecode-line">'' @ [0x0A]
               @ asc ''        <span class="bytecode-index">'' @ padStart2 (natString index)
               @ asc ''</span>'' @ [0x0A]
               @ asc ''        '' @ highlightBytecode instruction @ [0x0A]
               @ asc ''      </div>'')
      | _ \<Rightarrow> Inl TypeError)\<close>

text \<open>\<open>bytecode.length === 0\<close>, for a value that is not falsy.\<close>

fun lengthIsZero :: "jsval \<Rightarrow> bool" where
  "lengthIsZero (JArr xs) = (xs = [])"
| "lengthIsZero (JStr s) = (s = [])"
| "lengthIsZero (JObj fs) = (map_of fs (asc ''length'') = Some (JNum 0))"
| "lengthIsZero v = False"

text \<open>Only an array has \<open>map\<close>; any other value that gets there makes the call a \<open>TypeError\<close>.\<close>

definition formatBytecode :: "jsval option \<Rightarrow> exn + jsstring" where
  "formatBytecode bytecode =
     (if \<not> truthy bytecode \<or> lengthIsZero (the bytecode)
      then Inr (asc ''<em>No bytecode generated</em>'')
      else (case the bytecode of
              JArr lns \<Rightarrow>
                (case sequence (map (\<lambda>(index, ln). bytecodeLine index ln) (enumerate 0 lns)) of
                   Inl e \<Rightarrow> Inl e
                 | Inr divs \<Rightarrow> Inr (concat divs))
            | _ \<Rightarrow> Inl TypeError))"

section \<open>The page\<close>

text \<open>
  The mutable state that the script works on: the editor and its annotations, the
  \<open>errorMarkers\<close> array, the elements of the page that the script writes to, the timers it
  has set and the requests it has sent.  The editor is a component the script only calls.
  Of it the model has the text, the lines that carry the class \<open>error-line\<close>, the
  marks by the calls that made them, the position that it was last asked to scroll to
  and did not throw at, and \<open>editor_viewBottom\<close>: the line at the lower edge of the
  viewport, or the number of lines when the text ends above that edge.  \<open>resultValue_highlight\<close> says whether the
  element that \<open>animateResult\<close> found last has been given the class \<open>result-highlight\<close>;
  the timers are recorded, not run.  \<open>awaiting\<close> counts the activations of \<open>compile\<close>
  that are suspended at their \<open>await\<close>.
\<close>

text \<open>
  What \<open>errorMarkers\<close> holds: the handle of a line, which is the line itself (here its
  index), and a text mark.
\<close>

datatype marker = LineHandle nat | TextMarker nat

datatype content = Text jsstring | Html jsstring

datatype timer = ScrollErrorPanelIntoView | RemoveResultHighlight

record request =
  url :: jsstring
  requestMethod :: jsstring
  headers :: "(jsstring \<times> jsstring) list"
  body :: jsval

record page =
  editor_value :: jsstring
  editor_viewBottom :: nat
  editor_lineClasses :: "nat list"
  editor_marks :: "(nat \<times> (number \<times> number) \<times> (number \<times> number)) list"
  editor_handles :: nat
  editor_scroll :: "(number \<times> number) option"
  errorMarkers :: "marker list"
  compileBtn_disabled :: bool
  spinner_display :: jsstring
  errorPanel_display :: jsstring
  errorContent :: jsstring
  resultOutput :: content
  bytecodeOutput :: content
  resultValue_highlight :: bool
  timeouts :: "(nat \<times> timer) list"
  requests :: "request list"
  awaiting :: nat

subsection \<open>The editor's operations\<close>

text \<open>
  The number of lines of the text; \<open>editor.getValue()\<close> gives the lines joined by line
  feeds.
\<close>

definition lineCount :: "jsstring \<Rightarrow> nat" where
  "lineCount txt = Suc (length (filter (\<lambda>c. c = 0x0A) txt))"

text \<open>
  The line that a line number is clipped to, when a position is clipped into the text;
  \<open>NaN\<close> is clipped to no line.
\<close>

fun clipLine :: "number \<Rightarrow> nat \<Rightarrow> nat option" where
  "clipLine NaN lines = None"
| "clipLine (Finite i) lines = Some (nat (max 0 (min i (int lines - 1))))"
| "clipLine PosInfinity lines = Some (lines - 1)"
| "clipLine NegInfinity lines = Some 0"

text \<open>
  \<open>editor.addLineClass(line, "background", "error-line")\<close>: the line number is clipped
  into the text, the class is put on that line unless it has it, and the line is
  returned as the handle.  A line number that is \<open>NaN\<close> finds no line to put the class on.
\<close>

definition addLineClass :: "number \<Rightarrow> page \<Rightarrow> exn + marker \<times> page" where
  "addLineClass ln s =
     (case clipLine ln (lineCount (editor_value s)) of
        None \<Rightarrow> Inl TypeError
      | Some h \<Rightarrow>
          Inr (LineHandle h,
               if h \<in> set (editor_lineClasses s) then s
               else s\<lparr> editor_lineClasses := editor_lineClasses s @ [h] \<rparr>))"

text \<open>\<open>editor.markText(from, to, { className: "error-highlight" })\<close>, which returns the mark.\<close>

definition markText :: "number \<times> number \<Rightarrow> number \<times> number \<Rightarrow> page \<Rightarrow> marker \<times> page" where
  "markText from to s =
     (TextMarker (editor_handles s),
      s\<lparr> editor_marks := editor_marks s @ [(editor_handles s, from, to)],
         editor_handles := Suc (editor_handles s) \<rparr>)"

text \<open>A line number below the first line, and one past the last of \<open>lines\<close> lines.\<close>

fun below :: "number \<Rightarrow> bool" where
  "below (Finite i) = (i < 0)"
| "below NegInfinity = True"
| "below n = False"

fun beyond :: "number \<Rightarrow> nat \<Rightarrow> bool" where
  "beyond (Finite i) lines = (int lines \<le> i)"
| "beyond PosInfinity lines = True"
| "beyond n lines = False"

text \<open>
  \<open>editor.scrollIntoView({ line: line, ch: 0 }, 200)\<close>.  The editor does not clip the line
  here before it works out the lines to draw: for a line below the first it asks for
  that line, and for a line past the last it does so when the text goes on below the
  viewport; asking for a line that the text does not have throws.  A line number that is
  \<open>NaN\<close> is no line to measure.
\<close>

definition scrollIntoView :: "number \<times> number \<Rightarrow> page \<Rightarrow> exn + page" where
  "scrollIntoView pos s =
     (if isNaN (fst pos) then Inl TypeError
      else if below (fst pos)
              \<or> (beyond (fst pos) (lineCount (editor_value s))
                  \<and> editor_viewBottom s < lineCount (editor_value s))
      then Inl (NoSuchLine (fst pos))
      else Inr (s\<lparr> editor_scroll := Some pos \<rparr>))"

subsection \<open>The functions of the script\<close>

definition showError :: "jsstring \<Rightarrow> page \<Rightarrow> page" where
  "showError message s =
     s\<lparr> errorPanel_display := asc ''block'',
        errorContent := message,
        timeouts := timeouts s @ [(100, ScrollErrorPanelIntoView)] \<rparr>"

definition hideError :: "page \<Rightarrow> page" where
  "hideError s = s\<lparr> errorPanel_display := asc ''none'' \<rparr>"

definition setLoadingState :: "bool \<Rightarrow> page \<Rightarrow> page" where
  "setLoadingState isLoading s =
     (if isLoading then s\<lparr> spinner_display := asc ''block'', compileBtn_disabled := True \<rparr>
      else s\<lparr> spinner_display := asc ''none'', compileBtn_disabled := False \<rparr>)"

text \<open>
  One round of the \<open>forEach\<close> of \<open>clearErrorMarkers\<close>: a text mark has \<open>clear\<close>, a line
  handle has not and goes to \<open>editor.removeLineClass\<close>.
\<close>

fun clearMarker :: "marker \<Rightarrow> page \<Rightarrow> page" where
  "clearMarker (TextMarker h) s =
     s\<lparr> editor_marks := filter (\<lambda>m. fst m \<noteq> h) (editor_marks s) \<rparr>"
| "clearMarker (LineHandle h) s =
     s\<lparr> editor_lineClasses := filter (\<lambda>l. l \<noteq> h) (editor_lineClasses s) \<rparr>"

definition clearErrorMarkers :: "page \<Rightarrow> page" where
  "clearErrorMarkers s = (fold clearMarker (errorMarkers s) s)\<lparr> errorMarkers := [] \<rparr>"

text \<open>
  \<open>showErrorWithHighlighting\<close> for an error message that is a string, with the
  exception it ends in, if any: the message is shown, and when it carries a position the
  line is highlighted, the handle recorded, the column marked when it is a number, and
  the editor scrolled there.
\<close>

definition highlightError :: "jsstring \<Rightarrow> page \<Rightarrow> page \<times> exn option" where
  "highlightError errorMessage s =
     (let s1 = showError errorMessage s in
      case locate errorMessage of
        None \<Rightarrow> (s1, None)
      | Some loc \<Rightarrow>
          (case addLineClass (line loc) s1 of
             Inl e \<Rightarrow> (s1, Some e)
           | Inr (marker, s2) \<Rightarrow>
               let s3 = s2\<lparr> errorMarkers := errorMarkers s2 @ [marker] \<rparr>;
                   s4 = (if \<not> isNaN (column loc)
                         then let (mark, s') = markText (line loc, column loc)
                                                 (line loc, plus_num (column loc) 1) s3
                              in s'\<lparr> errorMarkers := errorMarkers s' @ [mark] \<rparr>
                         else s3)
               in (case scrollIntoView (line loc, Finite 0) s4 of
                     Inl e \<Rightarrow> (s4, Some e)
                   | Inr s5 \<Rightarrow> (s5, None))))"

text \<open>
  \<open>showErrorWithHighlighting(data.error)\<close> for any truthy value, with the exception it
  ends in, if any.  A value that is not a string is converted for \<open>textContent\<close>, and
  then has no \<open>match\<close> to call.
\<close>

definition showErrorWithHighlighting :: "jsval \<Rightarrow> page \<Rightarrow> page \<times> exn option" where
  "showErrorWithHighlighting v s =
     (case v of
        JStr errorMessage \<Rightarrow> highlightError errorMessage s
      | _ \<Rightarrow>
          (case toString v of
             Inl e \<Rightarrow> (s\<lparr> errorPanel_display := asc ''block'' \<rparr>, Some e)
           | Inr txt \<Rightarrow> (showError txt s, Some TypeError)))"

text \<open>
  \<open>animateResult\<close>: the element of class \<open>result-value\<close> is the one that the assignment
  to \<open>innerHTML\<close> just before has created.
\<close>

definition animateResult :: "page \<Rightarrow> page" where
  "animateResult s =
     s\<lparr> resultValue_highlight := True,
        timeouts := timeouts s @ [(2000, RemoveResultHighlight)] \<rparr>"

subsection \<open>The fixed messages\<close>

definition msg_empty :: jsstring where
  "msg_empty = asc ''Please enter some code to compile.''"

definition msg_compiling :: jsstring where
  "msg_compiling = [0xD83D, 0xDD04] @ asc '' Compiling your code...''"

definition msg_generating :: jsstring where
  "msg_generating = [0x2699, 0xFE0F] @ asc '' Generating bytecode...''"

definition msg_failed :: jsstring where
  "msg_failed = [0x274C] @ asc '' Compilation failed. Check the error below.''"

definition msg_no_bytecode :: jsstring where
  "msg_no_bytecode = [0x274C] @ asc '' No bytecode generated due to compilation error.''"

definition msg_no_server :: jsstring where
  "msg_no_server = [0x274C] @ asc '' Failed to connect to the server.''"

definition msg_connection :: jsstring where
  "msg_connection = [0x274C] @ asc '' Connection error.''"

definition resultHtml :: "jsstring \<Rightarrow> jsstring" where
  \<open>resultHtml shown =
     asc ''<span class="success-icon">'' @ [0x2705]
     @ asc ''</span> Result: <span class="result-value">'' @ shown @ asc ''</span>''\<close>

section \<open>The compile function\<close>

text \<open>
  \<open>fetch("/compile", ...)\<close>: the request goes out and the caller is suspended until it
  settles.  The body that is sent is the JSON text of \<open>body\<close>.
\<close>

definition fetch :: "request \<Rightarrow> page \<Rightarrow> page" where
  "fetch req s = s\<lparr> requests := requests s @ [req], awaiting := Suc (awaiting s) \<rparr>"

definition compileRequest :: "jsstring \<Rightarrow> request" where
  "compileRequest code =
     \<lparr> url = asc ''/compile'',
       requestMethod = asc ''POST'',
       headers = [(asc ''Content-Type'', asc ''application/json'')],
       body = JObj [(asc ''source'', JStr code), (asc ''language'', JStr (asc ''custom''))] \<rparr>"

text \<open>
  A call of \<open>compile()\<close>, up to the point where it returns (empty input) or is suspended
  at \<open>await fetch(...)\<close>.
\<close>

definition compile :: "page \<Rightarrow> page" where
  "compile s =
     (let code = trim (editor_value s) in
      if code = [] then showError msg_empty s
      else
        let s1 = clearErrorMarkers s;
            s2 = setLoadingState True s1;
            s3 = hideError s2;
            s4 = s3\<lparr> resultOutput := Text msg_compiling,
                     bytecodeOutput := Text msg_generating \<rparr>
        in fetch (compileRequest code) s4)"

text \<open>
  How the awaited calls end: \<open>fetch\<close> or \<open>response.json()\<close> is rejected with an error
  of the given \<open>message\<close>, or the body is parsed to a value.  \<open>typeErrorMessage\<close> is the
  \<open>message\<close> that the engine gives a \<open>TypeError\<close> it raises while this response is
  handled; its wording is the engine's own.
\<close>

datatype outcome = Rejected jsstring | Parsed jsval (typeErrorMessage: jsstring)

text \<open>
  The body of the \<open>try\<close> block behind \<open>const data = await response.json()\<close>: the page
  where the block ends, and the exception it ends with, if any.
\<close>

definition handleData :: "jsval \<Rightarrow> page \<Rightarrow> page \<times> exn option" where
  "handleData data s =
     (case getProperty data (asc ''error'') of
        Inl e \<Rightarrow> (s, Some e)
      | Inr err \<Rightarrow>
          if truthy err then
            (case showErrorWithHighlighting (the err) s of
               (s1, Some e) \<Rightarrow> (s1, Some e)
             | (s1, None) \<Rightarrow>
                 (s1\<lparr> resultOutput := Text msg_failed,
                      bytecodeOutput := Text msg_no_bytecode \<rparr>, None))
          else
            (case getProperty data (asc ''result'') of
               Inl e \<Rightarrow> (s, Some e)
             | Inr res \<Rightarrow>
                 (case (if truthy res then toString (the res) else Inr (asc ''No output'')) of
                    Inl e \<Rightarrow> (s, Some e)
                  | Inr shown \<Rightarrow>
                      let s1 = s\<lparr> resultOutput := Html (resultHtml shown) \<rparr> in
                      (case getProperty data (asc ''bytecode'') of
                         Inl e \<Rightarrow> (s1, Some e)
                       | Inr bc \<Rightarrow>
                           (case formatBytecode bc of
                              Inl e \<Rightarrow> (s1, Some e)
                            | Inr html \<Rightarrow>
                                (animateResult (s1\<lparr> bytecodeOutput := Html html \<rparr>), None))))))"

definition tryBlock :: "outcome \<Rightarrow> page \<Rightarrow> page \<times> exn option" where
  "tryBlock out s =
     (case out of
        Rejected m \<Rightarrow> (s, Some (Rejection m))
      | Parsed data tm \<Rightarrow> handleData data s)"

text \<open>
  \<open>error.message\<close> in the \<open>catch\<close> block; the editor's error has the message
  \<open>"There is no line " + n + " in the document."\<close>.
\<close>

definition exnMessage :: "outcome \<Rightarrow> exn \<Rightarrow> jsstring" where
  "exnMessage out e =
     (case e of
        Rejection m \<Rightarrow> m
      | TypeError \<Rightarrow> (case out of Parsed data tm \<Rightarrow> tm | Rejected m \<Rightarrow> m)
      | NoSuchLine n \<Rightarrow>
          asc ''There is no line '' @ numberString n @ asc '' in the document.'')"

definition catchBlock :: "jsstring \<Rightarrow> page \<Rightarrow> page" where
  "catchBlock message s =
     (showError (asc ''Network error: '' @ message) s)
       \<lparr> resultOutput := Text msg_no_server, bytecodeOutput := Text msg_connection \<rparr>"

text \<open>
  The rest of an activation of \<open>compile()\<close>, run when what it awaits has settled: the
  \<open>try\<close> block, the \<open>catch\<close> block when that threw, and the \<open>finally\<close> block in any case.
\<close>

definition compile_resume :: "outcome \<Rightarrow> page \<Rightarrow> page" where
  "compile_resume out s =
     (let s0 = s\<lparr> awaiting := awaiting s - 1 \<rparr>;
          s1 = (case tryBlock out s0 of
                  (s', None) \<Rightarrow> s'
                | (s', Some e) \<Rightarrow> catchBlock (exnMessage out e) s')
      in setLoadingState False s1)"

section \<open>The triggers\<close>

text \<open>
  The click listener of the compile button; a button that is disabled gets no click.
\<close>

definition compileBtn_click :: "page \<Rightarrow> page" where
  "compileBtn_click s = (if compileBtn_disabled s then s else compile s)"

text \<open>The \<open>keydown\<close> listener of the document.\<close>

record keyEvent =
  ctrlKey :: bool
  metaKey :: bool
  key :: jsstring

definition keydown :: "keyEvent \<Rightarrow> page \<Rightarrow> page" where
  "keydown event s =
     (if (ctrlKey event \<or> metaKey event) \<and> key event = asc ''Enter'' then compile s else s)"

text \<open>
  The editor's own key map (\<open>extraKeys\<close>) binds Ctrl-Enter and Cmd-Enter to \<open>compile\<close>
  as well.
\<close>

definition editorKey :: "page \<Rightarrow> page" where
  "editorKey s = compile s"

text \<open>
  What happens to the page, one event after the other: a click on the button, a key
  pressed, a key that the editor maps, and the settling of what a suspended attempt
  awaits.
\<close>

datatype event = Click | KeyDown keyEvent | EditorKey | Settled outcome

fun step :: "event \<Rightarrow> page \<Rightarrow> page" where
  "step Click s = compileBtn_click s"
| "step (KeyDown e) s = keydown e s"
| "step EditorKey s = editorKey s"
| "step (Settled out) s = (if awaiting s = 0 then s else compile_resume out s)"

text \<open>The events that do not come from the keyboard.\<close>

fun noKey :: "event \<Rightarrow> bool" where
  "noKey (KeyDown e) = False"
| "noKey EditorKey = False"
| "noKey e = True"

definition run :: "event list \<Rightarrow> page \<Rightarrow> page" where
  "run events s = fold step events s"

text \<open>
  The page as it is loaded, with a text in the editor that the viewport shows to its
  end (the two panels with their texts of \<open>index.html\<close>, without the white space around
  them).
\<close>

definition loaded :: "jsstring \<Rightarrow> page" where
  "loaded txt =
     \<lparr> editor_value = txt,
       editor_viewBottom = lineCount txt,
       editor_lineClasses = [],
       editor_marks = [],
       editor_handles = 0,
       editor_scroll = None,
       errorMarkers = [],
       compileBtn_disabled = False,
       spinner_display = [],
       errorPanel_display = [],
       errorContent = [],
       resultOutput = Text (asc ''Ready to compile...''),
       bytecodeOutput = Text (asc ''Compile your code to see bytecode instructions...''),
       resultValue_highlight = False,
       timeouts = [],
       requests = [],
       awaiting = 0 \<rparr>"

definition ctrlEnter :: keyEvent where
  "ctrlEnter = \<lparr> ctrlKey = True, metaKey = False, key = asc ''Enter'' \<rparr>"

section \<open>The script of the plain text area\<close>

text \<open>
  \<open>script.js\<close> is the same controller over a plain \<open>textarea\<close>, without editor
  annotations; its functions have the names of the ones above, written here with a
  prime.  The page it works on:
\<close>

record page' =
  sourceCode_value :: jsstring
  compileBtn_disabled' :: bool
  compileBtn_label :: jsstring
  spinner_display' :: jsstring
  errorPanel_display' :: jsstring
  errorPanel_animation :: jsstring
  errorContent' :: jsstring
  resultOutput' :: jsstring
  resultOutput_animation :: jsstring
  bytecodeOutput' :: jsstring
  requests' :: "request list"
  awaiting' :: nat

definition setLoadingState' :: "bool \<Rightarrow> page' \<Rightarrow> page'" where
  "setLoadingState' loading s =
     (if loading
      then s\<lparr> compileBtn_disabled' := True,
              spinner_display' := asc ''inline-block'',
              compileBtn_label := [0x23F3] @ asc '' Compiling...'' \<rparr>
      else s\<lparr> compileBtn_disabled' := False,
              spinner_display' := asc ''none'',
              compileBtn_label := [0x26A1] @ asc '' Compile & Run'' \<rparr>)"

definition showError' :: "jsstring \<Rightarrow> page' \<Rightarrow> page'" where
  "showError' message s =
     s\<lparr> errorPanel_display' := asc ''block'',
        errorContent' := message,
        errorPanel_animation := asc ''shake 0.5s ease-in-out'' \<rparr>"

definition hideError' :: "page' \<Rightarrow> page'" where
  "hideError' s = s\<lparr> errorPanel_display' := asc ''none'' \<rparr>"

definition msg_generating' :: jsstring where
  "msg_generating' = [0x2699, 0xFE0F] @ asc ''  Generating bytecode...''"

definition msg_no_server' :: jsstring where
  "msg_no_server' = [0x274C] @ asc '' Failed to connect to compiler server.''"

definition msg_connection' :: jsstring where
  "msg_connection' = [0x274C] @ asc '' Server connection unavailable.''"

definition fetch' :: "request \<Rightarrow> page' \<Rightarrow> page'" where
  "fetch' req s = s\<lparr> requests' := requests' s @ [req], awaiting' := Suc (awaiting' s) \<rparr>"

definition compileRequest' :: "jsstring \<Rightarrow> request" where
  "compileRequest' code =
     \<lparr> url = asc ''http://127.0.0.1:8080/compile'',
       requestMethod = asc ''POST'',
       headers = [(asc ''Content-Type'', asc ''application/json'')],
       body = JObj [(asc ''source'', JStr code), (asc ''language'', JStr (asc ''custom''))] \<rparr>"

definition compile' :: "page' \<Rightarrow> page'" where
  "compile' s =
     (let code = trim (sourceCode_value s) in
      if code = [] then showError' msg_empty s
      else
        let s1 = setLoadingState' True s;
            s2 = hideError' s1;
            s3 = s2\<lparr> resultOutput' := msg_compiling,
                     bytecodeOutput' := msg_generating' \<rparr>
        in fetch' (compileRequest' code) s3)"

text \<open>
  \<open>showError(data.error)\<close> for any truthy value; the \<open>textContent\<close> setter converts it.
\<close>

definition showErrorValue' :: "jsval \<Rightarrow> page' \<Rightarrow> page' \<times> exn option" where
  "showErrorValue' v s =
     (case toString v of
        Inl e \<Rightarrow> (s\<lparr> errorPanel_display' := asc ''block'' \<rparr>, Some e)
      | Inr txt \<Rightarrow> (showError' txt s, None))"

text \<open>
  \<open>data.bytecode?.join("\n") || "No bytecode generated"\<close>: \<open>?.\<close> stops at \<open>undefined\<close>
  and \<open>null\<close> only, and only an array has \<open>join\<close>.
\<close>

definition bytecodeText' :: "jsval option \<Rightarrow> exn + jsstring" where
  "bytecodeText' bytecode =
     (case bytecode of
        None \<Rightarrow> Inr (asc ''No bytecode generated'')
      | Some JNull \<Rightarrow> Inr (asc ''No bytecode generated'')
      | Some (JArr lns) \<Rightarrow>
          (case sequence (map (\<lambda>x. if x = JNull then Inr [] else toString x) lns) of
             Inl e \<Rightarrow> Inl e
           | Inr ss \<Rightarrow>
               Inr (if join [0x0A] ss = [] then asc ''No bytecode generated''
                    else join [0x0A] ss))
      | Some v \<Rightarrow> Inl TypeError)"

definition handleData' :: "jsval \<Rightarrow> page' \<Rightarrow> page' \<times> exn option" where
  "handleData' data s =
     (case getProperty data (asc ''error'') of
        Inl e \<Rightarrow> (s, Some e)
      | Inr err \<Rightarrow>
          if truthy err then
            (case showErrorValue' (the err) s of
               (s1, Some e) \<Rightarrow> (s1, Some e)
             | (s1, None) \<Rightarrow>
                 (s1\<lparr> resultOutput' := msg_failed,
                      bytecodeOutput' := msg_no_bytecode \<rparr>, None))
          else
            (case getProperty data (asc ''result'') of
               Inl e \<Rightarrow> (s, Some e)
             | Inr res \<Rightarrow>
                 (case (if truthy res then toString (the res) else Inr (asc ''No output'')) of
                    Inl e \<Rightarrow> (s, Some e)
                  | Inr shown \<Rightarrow>
                      let s1 = s\<lparr> resultOutput' := [0x2705] @ asc '' Result: '' @ shown \<rparr> in
                      (case getProperty data (asc ''bytecode'') of
                         Inl e \<Rightarrow> (s1, Some e)
                       | Inr bc \<Rightarrow>
                           (case bytecodeText' bc of
                              Inl e \<Rightarrow> (s1, Some e)
                            | Inr txt \<Rightarrow>
                                (s1\<lparr> bytecodeOutput' := txt,
                                     resultOutput_animation := asc ''fadeIn 0.5s ease-out'' \<rparr>,
                                 None))))))"

definition tryBlock' :: "outcome \<Rightarrow> page' \<Rightarrow> page' \<times> exn option" where
  "tryBlock' out s =
     (case out of
        Rejected m \<Rightarrow> (s, Some (Rejection m))
      | Parsed data tm \<Rightarrow> handleData' data s)"

definition catchBlock' :: "jsstring \<Rightarrow> page' \<Rightarrow> page'" where
  "catchBlock' message s =
     (showError'
        (asc ''Connection error: '' @ message @ [0x0A, 0x0A]
         @ asc ''Please ensure the compiler server is running on http://127.0.0.1:8080'') s)
       \<lparr> resultOutput' := msg_no_server', bytecodeOutput' := msg_connection' \<rparr>"

definition compile_resume' :: "outcome \<Rightarrow> page' \<Rightarrow> page'" where
  "compile_resume' out s =
     (let s0 = s\<lparr> awaiting' := awaiting' s - 1 \<rparr>;
          s1 = (case tryBlock' out s0 of
                  (s', None) \<Rightarrow> s'
                | (s', Some e) \<Rightarrow> catchBlock' (exnMessage out e) s')
      in setLoadingState' False s1)"

definition loaded' :: "jsstring \<Rightarrow> page'" where
  "loaded' txt =
     \<lparr> sourceCode_value = txt,
       compileBtn_disabled' = False,
       compileBtn_label = [0x26A1] @ asc '' Compile & Run'',
       spinner_display' = [],
       errorPanel_display' = [],
       errorPanel_animation = [],
       errorContent' = [],
       resultOutput' = asc ''Ready to compile...'',
       resultOutput_animation = [],
       bytecodeOutput' = asc ''Compile your code to see bytecode instructions...'',
       requests' = [],
       awaiting' = 0 \<rparr>"

section \<open>Sample inputs\<close>

definition sampleError :: jsstring where
  "sampleError = asc ''Unexpected token ';' at 2:5''"

definition errorResponse :: "jsstring \<Rightarrow> outcome" where
  "errorResponse e = Parsed (JObj [(asc ''error'', JStr e)]) []"

text \<open>An error message whose position lies before the first line of any text.\<close>

definition outsideError :: jsstring where
  "outsideError = asc ''bad token at 0:0''"

text \<open>A response that carries a result and a listing beside its error.\<close>

definition mixedResponse :: "(jsstring \<times> jsval) list" where
  "mixedResponse =
     [(asc ''result'', JNum 40),
      (asc ''bytecode'', JArr [JStr (asc ''Push(40)'')]),
      (asc ''error'', JStr sampleError)]"

text \<open>The response to a program whose value is zero.\<close>

definition zeroResponse :: jsval where
  "zeroResponse =
     JObj [(asc ''result'', JNum 0), (asc ''bytecode'', JArr [JStr (asc ''Push(0)'')])]"

text \<open>
  What holds in every state that clicks and settled requests lead to: at most one
  attempt is suspended, the button is disabled exactly then, and the tracked markers are
  those of one attempt at most, none while the attempt is suspended.
\<close>

definition single_flight :: "page \<Rightarrow> bool" where
  "single_flight s \<longleftrightarrow>
     awaiting s \<le> 1 \<and> (compileBtn_disabled s = (awaiting s = 1))
     \<and> length (errorMarkers s) \<le> 2 \<and> (awaiting s = 1 \<longrightarrow> errorMarkers s = [])"

section \<open>Properties\<close>

subsection \<open>The two branches of the entry point\<close>

lemma compile_empty:
  "trim (editor_value s) = [] \<Longrightarrow> compile s = showError msg_empty s"
  by (simp add: compile_def)

lemma compile_nonempty:
  "trim (editor_value s) \<noteq> [] \<Longrightarrow>
   compile s =
     fetch (compileRequest (trim (editor_value s)))
       ((hideError (setLoadingState True (clearErrorMarkers s)))
          \<lparr> resultOutput := Text msg_compiling, bytecodeOutput := Text msg_generating \<rparr>)"
  by (simp add: compile_def Let_def)

lemma compile'_empty:
  "trim (sourceCode_value p) = [] \<Longrightarrow> compile' p = showError' msg_empty p"
  by (simp add: compile'_def)

lemma compile'_nonempty:
  "trim (sourceCode_value p) \<noteq> [] \<Longrightarrow>
   compile' p =
     fetch' (compileRequest' (trim (sourceCode_value p)))
       ((hideError' (setLoadingState' True p))
          \<lparr> resultOutput' := msg_compiling, bytecodeOutput' := msg_generating' \<rparr>)"
  by (simp add: compile'_def Let_def)

lemma fold_clearMarker_frame:
  "fold clearMarker ms s =
     s\<lparr> editor_lineClasses := editor_lineClasses (fold clearMarker ms s),
        editor_marks := editor_marks (fold clearMarker ms s) \<rparr>"
proof (induction ms arbitrary: s)
  case Nil
  show ?case by simp
next
  case (Cons m ms)
  show ?case
    by (cases m) (simp_all, (subst Cons.IH, simp)+)
qed


lemma clearErrorMarkers_frame:
  "clearErrorMarkers s =
     s\<lparr> editor_lineClasses := editor_lineClasses (clearErrorMarkers s),
        editor_marks := editor_marks (clearErrorMarkers s),
        errorMarkers := [] \<rparr>"
proof -
  have "(fold clearMarker (errorMarkers s) s)\<lparr> errorMarkers := [] \<rparr> =
        (s\<lparr> editor_lineClasses := editor_lineClasses (fold clearMarker (errorMarkers s) s),
            editor_marks := editor_marks (fold clearMarker (errorMarkers s) s) \<rparr>)
          \<lparr> errorMarkers := [] \<rparr>"
    by (rule arg_cong [OF fold_clearMarker_frame])
  then show ?thesis by (simp add: clearErrorMarkers_def)
qed

lemma compile_nonempty_frame:
  assumes "trim (editor_value s) \<noteq> []"
  shows "compile s =
     s\<lparr> editor_lineClasses := editor_lineClasses (clearErrorMarkers s),
        editor_marks := editor_marks (clearErrorMarkers s),
        errorMarkers := [],
        compileBtn_disabled := True,
        spinner_display := asc ''block'',
        errorPanel_display := asc ''none'',
        resultOutput := Text msg_compiling,
        bytecodeOutput := Text msg_generating,
        requests := requests s @ [compileRequest (trim (editor_value s))],
        awaiting := Suc (awaiting s) \<rparr>"
  by (subst compile_nonempty [OF assms], subst clearErrorMarkers_frame)
     (simp add: fetch_def hideError_def setLoadingState_def)

lemma keydown_ctrlEnter: "keydown ctrlEnter s = compile s"
  by (simp add: keydown_def ctrlEnter_def)

lemma click_while_disabled: "compileBtn_disabled s \<Longrightarrow> compileBtn_click s = s"
  by (simp add: compileBtn_click_def)

lemma trim_spaces: "trim (asc ''   '') = []"
  by (simp add: trim_def asc_def isWhiteSpace_def)

lemma trim_program: "trim (asc '' int x = ; '') = asc ''int x = ;''"
  by (simp add: trim_def asc_def isWhiteSpace_def)

lemma loaded_fields:
  "editor_value (loaded t) = t" "editor_handles (loaded t) = 0" "errorMarkers (loaded t) = []"
  "requests (loaded t) = []" "awaiting (loaded t) = 0" "compileBtn_disabled (loaded t) = False"
  by (simp_all add: loaded_def)

lemma trim_program_nonempty: "trim (asc '' int x = ; '') \<noteq> []"
  by (simp add: trim_def asc_def isWhiteSpace_def)

lemma loaded'_fields:
  "sourceCode_value (loaded' t) = t" "requests' (loaded' t) = []" "awaiting' (loaded' t) = 0"
  "compileBtn_disabled' (loaded' t) = False"
  by (simp_all add: loaded'_def)

lemma program_nonempty: "asc ''int x = ;'' \<noteq> []"
  by (simp add: asc_def)

lemma lineCount_program: "lineCount (asc '' int x = ; '') = 1"
  by (simp add: lineCount_def asc_def)

subsection \<open>Showing an error in the editor\<close>

lemma highlightError_frame:
  "fst (highlightError m s) =
     (showError m s)
       \<lparr> editor_lineClasses := editor_lineClasses (fst (highlightError m s)),
          editor_marks := editor_marks (fst (highlightError m s)),
          editor_handles := editor_handles (fst (highlightError m s)),
          editor_scroll := editor_scroll (fst (highlightError m s)),
          errorMarkers := errorMarkers (fst (highlightError m s)) \<rparr>"
proof (cases "locate m")
  case None
  then show ?thesis by (simp add: highlightError_def)
next
  case (Some loc)
  show ?thesis
  proof (cases "clipLine (line loc) (lineCount (editor_value s))")
    case None
    with Some show ?thesis
      by (simp add: highlightError_def addLineClass_def showError_def)
  next
    case (Some h)
    with \<open>locate m = Some loc\<close> show ?thesis
      by (simp add: highlightError_def addLineClass_def showError_def markText_def
          scrollIntoView_def Let_def)
  qed
qed

lemma requests_highlightError:
  "highlightError m s = (s1, e) \<Longrightarrow> requests s1 = requests s"
proof -
  assume "highlightError m s = (s1, e)"
  then have "s1 = fst (highlightError m s)" by simp
  then show ?thesis
    by (subst (asm) highlightError_frame) (simp add: showError_def)
qed


lemma highlightError_fields:
  assumes "highlightError m s = (s1, e)"
  shows "awaiting s1 = awaiting s" and "errorContent s1 = m"
    and "errorPanel_display s1 = asc ''block''" and "editor_value s1 = editor_value s"
proof -
  from assms have eq: "s1 = fst (highlightError m s)" by simp
  show "awaiting s1 = awaiting s"
    using eq by (subst (asm) highlightError_frame) (simp add: showError_def)
  show "errorContent s1 = m"
    using eq by (subst (asm) highlightError_frame) (simp add: showError_def)
  show "errorPanel_display s1 = asc ''block''"
    using eq by (subst (asm) highlightError_frame) (simp add: showError_def)
  show "editor_value s1 = editor_value s"
    using eq by (subst (asm) highlightError_frame) (simp add: showError_def)
qed

lemma errorMarkers_highlightError:
  "errorMarkers (fst (highlightError m s)) =
     (case locate m of
        None \<Rightarrow> errorMarkers s
      | Some loc \<Rightarrow>
          (case clipLine (line loc) (lineCount (editor_value s)) of
             None \<Rightarrow> errorMarkers s
           | Some h \<Rightarrow>
               errorMarkers s @ LineHandle h
                 # (if isNaN (column loc) then [] else [TextMarker (editor_handles s)])))"
proof (cases "locate m")
  case None
  then show ?thesis by (simp add: highlightError_def showError_def)
next
  case (Some loc)
  show ?thesis
  proof (cases "clipLine (line loc) (lineCount (editor_value s))")
    case None
    with Some show ?thesis
      by (simp add: highlightError_def addLineClass_def showError_def)
  next
    case (Some h)
    with \<open>locate m = Some loc\<close> show ?thesis
      by (simp add: highlightError_def addLineClass_def showError_def markText_def
          scrollIntoView_def Let_def)
  qed
qed

lemma clipLine_not_NaN: "\<not> isNaN n \<Longrightarrow> \<exists>h. clipLine n lines = Some h"
  by (cases n) (simp_all add: isNaN_def)

lemma highlightError_exception:
  assumes "locate m = Some loc" and "\<not> isNaN (line loc)"
  shows "snd (highlightError m s) =
     (if below (line loc)
         \<or> (beyond (line loc) (lineCount (editor_value s))
             \<and> editor_viewBottom s < lineCount (editor_value s))
      then Some (NoSuchLine (line loc)) else None)"
proof -
  from clipLine_not_NaN [OF assms(2)] obtain h where
    "clipLine (line loc) (lineCount (editor_value s)) = Some h" by blast
  with assms show ?thesis
    by (simp add: highlightError_def addLineClass_def showError_def markText_def
        scrollIntoView_def Let_def)
qed

lemma highlightError_below:
  assumes "locate m = Some loc" and "below (line loc)"
  shows "snd (highlightError m s) = Some (NoSuchLine (line loc))"
proof -
  from assms(2) have "\<not> isNaN (line loc)"
    by (cases "line loc") (simp_all add: isNaN_def)
  from highlightError_exception [OF assms(1) this] assms(2) show ?thesis by simp
qed

lemma highlightError_no_position:
  "locate m = None \<Longrightarrow> highlightError m s = (showError m s, None)"
  by (simp add: highlightError_def)

lemma highlightError_scrolls:
  assumes "locate m = Some loc" and "line loc = Finite i" and "0 \<le> i"
    and "i < int (lineCount (editor_value s)) \<or> lineCount (editor_value s) \<le> editor_viewBottom s"
  shows "snd (highlightError m s) = None"
proof -
  from assms(2) have "\<not> isNaN (line loc)" by (simp add: isNaN_def)
  from highlightError_exception [OF assms(1) this] assms(2-4) show ?thesis by auto
qed

subsection \<open>Requests are sent by the entry point only\<close>

lemma requests_clearMarker: "requests (clearMarker m s) = requests s"
  by (cases m) simp_all

lemma requests_fold_clearMarker: "requests (fold clearMarker ms s) = requests s"
  by (induction ms arbitrary: s) (simp_all add: requests_clearMarker)

lemma requests_clearErrorMarkers: "requests (clearErrorMarkers s) = requests s"
  by (simp add: clearErrorMarkers_def requests_fold_clearMarker)

lemma requests_showErrorWithHighlighting:
  "showErrorWithHighlighting v s = (s1, e) \<Longrightarrow> requests s1 = requests s"
  by (auto simp: showErrorWithHighlighting_def showError_def
      split: jsval.splits sum.splits dest: requests_highlightError)

lemma requests_handleData:
  "handleData d s = (s1, e) \<Longrightarrow> requests s1 = requests s"
  by (auto simp: handleData_def animateResult_def Let_def
      split: sum.splits prod.splits option.splits if_splits
      dest: requests_showErrorWithHighlighting)

lemma requests_tryBlock:
  "tryBlock out s = (s1, e) \<Longrightarrow> requests s1 = requests s"
  by (cases out) (auto simp: tryBlock_def dest: requests_handleData)

lemma requests_compile_resume: "requests (compile_resume out s) = requests s"
proof -
  obtain s1 e where t: "tryBlock out (s\<lparr> awaiting := awaiting s - 1 \<rparr>) = (s1, e)"
    by (cases "tryBlock out (s\<lparr> awaiting := awaiting s - 1 \<rparr>)")
  from requests_tryBlock [OF t] have "requests s1 = requests s" by simp
  with t show ?thesis
    by (cases e) (simp_all add: compile_resume_def catchBlock_def showError_def
        setLoadingState_def)
qed

lemma requests'_showErrorValue':
  "showErrorValue' v s = (s1, e) \<Longrightarrow> requests' s1 = requests' s"
  by (auto simp: showErrorValue'_def showError'_def split: sum.splits)

lemma requests'_handleData':
  "handleData' d s = (s1, e) \<Longrightarrow> requests' s1 = requests' s"
  by (auto simp: handleData'_def Let_def
      split: sum.splits prod.splits option.splits if_splits
      dest: requests'_showErrorValue')

lemma requests'_tryBlock':
  "tryBlock' out s = (s1, e) \<Longrightarrow> requests' s1 = requests' s"
  by (cases out) (auto simp: tryBlock'_def dest: requests'_handleData')

lemma requests'_compile_resume': "requests' (compile_resume' out p) = requests' p"
proof -
  obtain p1 e where t: "tryBlock' out (p\<lparr> awaiting' := awaiting' p - 1 \<rparr>) = (p1, e)"
    by (cases "tryBlock' out (p\<lparr> awaiting' := awaiting' p - 1 \<rparr>)")
  from requests'_tryBlock' [OF t] have "requests' p1 = requests' p" by simp
  with t show ?thesis
    by (cases e) (simp_all add: compile_resume'_def catchBlock'_def showError'_def
        setLoadingState'_def)
qed

subsection \<open>Whole numbers\<close>

lemma small_is_finite: "m \<le> 2 ^ 53 \<Longrightarrow> \<not> maxDouble < (m::nat)"
proof -
  have "(2::nat) ^ 53 \<le> 2 ^ 1024 - 2 ^ 971" by simp
  then show "m \<le> 2 ^ 53 \<Longrightarrow> \<not> maxDouble < m" by (simp add: maxDouble_def)
qed

lemma toNumber_exact: "\<bar>i\<bar> \<le> 2 ^ 53 \<Longrightarrow> toNumber i = Finite i"
proof -
  assume a: "\<bar>i\<bar> \<le> 2 ^ 53"
  then have "nat \<bar>i\<bar> \<le> 2 ^ 53" by (simp add: nat_le_iff)
  then have "roundNat (nat \<bar>i\<bar>) = nat \<bar>i\<bar>" and "\<not> maxDouble < nat \<bar>i\<bar>"
    by (simp_all add: roundNat_def small_is_finite)
  then show ?thesis by (cases "i < 0") (simp_all add: toNumber_def)
qed

lemma toNumber_not_NaN: "toNumber i \<noteq> NaN"
  by (simp add: toNumber_def)

lemma minus_num_not_NaN: "n \<noteq> NaN \<Longrightarrow> minus_num n k \<noteq> NaN"
  by (cases n) (simp_all add: toNumber_not_NaN)

lemma numberString_minus_one: "numberString (Finite (- 1)) = asc ''-1''"
  by (simp add: positiveString_def asc_def)

subsection \<open>The failure path\<close>

lemma locate_sampleError:
  "locate sampleError = Some \<lparr> line = Finite 1, column = Finite 4 \<rparr>"
  by (simp add: sampleError_def locate_def lineMatch_def lineMatch_here_def asc_def
      isDigit_def parseInt_def isWhiteSpace_def decimal_def digitValue_def toNumber_exact)

lemma locate_outsideError:
  "locate outsideError = Some \<lparr> line = Finite (- 1), column = Finite (- 1) \<rparr>"
  by (simp add: outsideError_def locate_def lineMatch_def lineMatch_here_def asc_def
      isDigit_def parseInt_def isWhiteSpace_def decimal_def digitValue_def toNumber_exact)

lemma handleData_error:
  "map_of fs (asc ''error'') = Some (JStr e) \<Longrightarrow> e \<noteq> [] \<Longrightarrow>
   handleData (JObj fs) s =
     (case highlightError e s of
        (s1, Some x) \<Rightarrow> (s1, Some x)
      | (s1, None) \<Rightarrow>
          (s1\<lparr> resultOutput := Text msg_failed, bytecodeOutput := Text msg_no_bytecode \<rparr>,
           None))"
  by (simp add: handleData_def showErrorWithHighlighting_def)

lemma compile_resume_error:
  "map_of fs (asc ''error'') = Some (JStr e) \<Longrightarrow> e \<noteq> [] \<Longrightarrow>
   compile_resume (Parsed (JObj fs) tm) s =
     setLoadingState False
       (case highlightError e (s\<lparr> awaiting := awaiting s - 1 \<rparr>) of
          (s1, None) \<Rightarrow>
            s1\<lparr> resultOutput := Text msg_failed, bytecodeOutput := Text msg_no_bytecode \<rparr>
        | (s1, Some x) \<Rightarrow> catchBlock (exnMessage (Parsed (JObj fs) tm) x) s1)"
  by (simp add: compile_resume_def tryBlock_def handleData_error
      split: prod.split option.split)

text \<open>
  With a message that the editor can scroll to, or that has no position, the failure
  path is taken to its end, whatever else the response holds.
\<close>

lemma error_takes_failure_path:
  assumes "map_of fs (asc ''error'') = Some (JStr e)" and "e \<noteq> []"
    and "snd (highlightError e (s\<lparr> awaiting := awaiting s - 1 \<rparr>)) = None"
  shows "errorContent (compile_resume (Parsed (JObj fs) tm) s) = e
     \<and> errorPanel_display (compile_resume (Parsed (JObj fs) tm) s) = asc ''block''
     \<and> resultOutput (compile_resume (Parsed (JObj fs) tm) s) = Text msg_failed
     \<and> bytecodeOutput (compile_resume (Parsed (JObj fs) tm) s) = Text msg_no_bytecode"
proof -
  obtain s1 x where h: "highlightError e (s\<lparr> awaiting := awaiting s - 1 \<rparr>) = (s1, x)"
    by (cases "highlightError e (s\<lparr> awaiting := awaiting s - 1 \<rparr>)")
  with assms(3) have "x = None" by simp
  with h highlightError_fields [OF h] show ?thesis
    by (simp add: compile_resume_error [OF assms(1,2)] setLoadingState_def)
qed

lemma handleData'_error:
  "map_of fs (asc ''error'') = Some (JStr e) \<Longrightarrow> e \<noteq> [] \<Longrightarrow>
   handleData' (JObj fs) p =
     ((showError' e p)\<lparr> resultOutput' := msg_failed,
                         bytecodeOutput' := msg_no_bytecode \<rparr>, None)"
  by (simp add: handleData'_def showErrorValue'_def)

lemma compile_resume'_error:
  "map_of fs (asc ''error'') = Some (JStr e) \<Longrightarrow> e \<noteq> [] \<Longrightarrow>
   compile_resume' (Parsed (JObj fs) tm) p =
     setLoadingState' False
       ((showError' e (p\<lparr> awaiting' := awaiting' p - 1 \<rparr>))
          \<lparr> resultOutput' := msg_failed, bytecodeOutput' := msg_no_bytecode \<rparr>)"
  by (simp add: compile_resume'_def tryBlock'_def handleData'_error)

lemma mixedResponse_result: "map_of mixedResponse (asc ''result'') = Some (JNum 40)"
  by (simp add: mixedResponse_def asc_def)

lemma sampleError_nonempty: "sampleError \<noteq> []"
  by (simp add: sampleError_def asc_def)

lemma mixedResponse_error: "map_of mixedResponse (asc ''error'') = Some (JStr sampleError)"
  by (simp add: mixedResponse_def asc_def)

subsection \<open>The markers after a call and after a response\<close>

lemma errorMarkers_clearErrorMarkers: "errorMarkers (clearErrorMarkers s) = []"
  by (simp add: clearErrorMarkers_def)

lemma errorMarkers_compile_nonempty:
  "trim (editor_value s) \<noteq> [] \<Longrightarrow> errorMarkers (compile s) = []"
  by (simp add: compile_nonempty fetch_def hideError_def setLoadingState_def
      errorMarkers_clearErrorMarkers)

lemma editor_handles_clearMarker: "editor_handles (clearMarker m s) = editor_handles s"
  by (cases m) simp_all

lemma editor_handles_fold_clearMarker: "editor_handles (fold clearMarker ms s) = editor_handles s"
  by (induction ms arbitrary: s) (simp_all add: editor_handles_clearMarker)

lemma editor_handles_compile_nonempty:
  "trim (editor_value s) \<noteq> [] \<Longrightarrow> editor_handles (compile s) = editor_handles s"
  by (simp add: compile_nonempty fetch_def hideError_def setLoadingState_def
      clearErrorMarkers_def editor_handles_fold_clearMarker)

text \<open>
  A response with the sample error, for a text of one line: the line number is clipped to
  that line, and the two markers are recorded whether or not the editor then scrolls.
\<close>

lemma compile_resume_sampleError:
  assumes "lineCount (editor_value s) = 1"
  shows "errorMarkers (compile_resume (errorResponse sampleError) s) =
           errorMarkers s @ [LineHandle 0, TextMarker (editor_handles s)]"
    and "editor_handles (compile_resume (errorResponse sampleError) s) = Suc (editor_handles s)"
    and "awaiting (compile_resume (errorResponse sampleError) s) = awaiting s - 1"
    and "editor_value (compile_resume (errorResponse sampleError) s) = editor_value s"
  using assms
  by (simp_all add: errorResponse_def compile_resume_def tryBlock_def handleData_def
      showErrorWithHighlighting_def highlightError_def locate_sampleError sampleError_nonempty
      showError_def addLineClass_def markText_def scrollIntoView_def catchBlock_def
      setLoadingState_def isNaN_def Let_def asc_def)

subsection \<open>Empty input\<close>

text \<open>
  C2: with an empty or white-space-only text the call sends no request and does nothing
  but show the message: the button, the spinner and the count of suspended attempts are
  as before.  This holds for both scripts.
\<close>

theorem empty_input_only_surfaces_error:
  "(trim (editor_value s) = [] \<longrightarrow>
      compile s = s\<lparr> errorPanel_display := asc ''block'', errorContent := msg_empty,
                      timeouts := timeouts s @ [(100, ScrollErrorPanelIntoView)] \<rparr>
      \<and> requests (compile s) = requests s
      \<and> awaiting (compile s) = awaiting s
      \<and> compileBtn_disabled (compile s) = compileBtn_disabled s
      \<and> spinner_display (compile s) = spinner_display s
      \<and> errorContent (compile s) = msg_empty
      \<and> errorPanel_display (compile s) = asc ''block'')
   \<and> (trim (sourceCode_value p) = [] \<longrightarrow>
      compile' p = p\<lparr> errorPanel_display' := asc ''block'', errorContent' := msg_empty,
                       errorPanel_animation := asc ''shake 0.5s ease-in-out'' \<rparr>
      \<and> requests' (compile' p) = requests' p
      \<and> awaiting' (compile' p) = awaiting' p
      \<and> compileBtn_disabled' (compile' p) = compileBtn_disabled' p
      \<and> spinner_display' (compile' p) = spinner_display' p
      \<and> errorContent' (compile' p) = msg_empty
      \<and> errorPanel_display' (compile' p) = asc ''block'')"
  by (simp add: compile_empty compile'_empty showError_def showError'_def)

theorem empty_input_only_surfaces_error_witness:
  "trim (editor_value (loaded (asc ''   ''))) = []
   \<and> requests (compile (loaded (asc ''   ''))) = []
   \<and> awaiting (compile (loaded (asc ''   ''))) = 0
   \<and> \<not> compileBtn_disabled (compile (loaded (asc ''   '')))
   \<and> errorContent (compile (loaded (asc ''   ''))) = msg_empty
   \<and> trim (sourceCode_value (loaded' (asc ''   ''))) = []
   \<and> requests' (compile' (loaded' (asc ''   ''))) = []
   \<and> \<not> compileBtn_disabled' (compile' (loaded' (asc ''   '')))
   \<and> errorContent' (compile' (loaded' (asc ''   ''))) = msg_empty"
  using empty_input_only_surfaces_error [of "loaded (asc ''   '')" "loaded' (asc ''   '')"]
  by (simp add: loaded_def loaded'_def trim_spaces)

text \<open>
  C10: a call with an empty or white-space-only text leaves the tracked markers, the
  annotations of the editor and the two output panels as they are.
\<close>

theorem empty_input_keeps_markers_and_panels:
  "trim (editor_value s) = [] \<Longrightarrow>
     errorMarkers (compile s) = errorMarkers s
     \<and> editor_lineClasses (compile s) = editor_lineClasses s
     \<and> editor_marks (compile s) = editor_marks s
     \<and> resultOutput (compile s) = resultOutput s
     \<and> bytecodeOutput (compile s) = bytecodeOutput s"
  by (simp add: compile_empty showError_def)

theorem empty_input_keeps_markers_and_panels_witness:
  "trim (editor_value
       ((compile_resume (errorResponse sampleError) (compile (loaded (asc '' int x = ; ''))))
          \<lparr> editor_value := asc ''   '' \<rparr>)) = []
   \<and> errorMarkers
       (compile
          ((compile_resume (errorResponse sampleError) (compile (loaded (asc '' int x = ; ''))))
             \<lparr> editor_value := asc ''   '' \<rparr>)) = [LineHandle 0, TextMarker 0]"
  using empty_input_keeps_markers_and_panels
    [of "(compile_resume (errorResponse sampleError) (compile (loaded (asc '' int x = ; ''))))
           \<lparr> editor_value := asc ''   '' \<rparr>"]
  by (simp add: trim_spaces compile_resume_sampleError compile_nonempty_frame
      loaded_fields trim_program program_nonempty lineCount_program)

subsection \<open>One request for each attempt\<close>

text \<open>
  C9: a call with a text that is not empty after trimming sends one request, whose body
  has the trimmed text as \<open>source\<close> and \<open>custom\<close> as \<open>language\<close>; the rest of the
  attempt sends none, however the awaited calls end.  This holds for both scripts.
\<close>

theorem one_request_per_attempt:
  "(trim (editor_value s) \<noteq> [] \<longrightarrow>
      requests (compile s) = requests s @ [compileRequest (trim (editor_value s))]
      \<and> url (compileRequest (trim (editor_value s))) = asc ''/compile''
      \<and> body (compileRequest (trim (editor_value s))) =
          JObj [(asc ''source'', JStr (trim (editor_value s))),
                (asc ''language'', JStr (asc ''custom''))])
   \<and> requests (compile_resume out s) = requests s
   \<and> (trim (sourceCode_value p) \<noteq> [] \<longrightarrow>
      requests' (compile' p) = requests' p @ [compileRequest' (trim (sourceCode_value p))]
      \<and> body (compileRequest' (trim (sourceCode_value p))) =
          JObj [(asc ''source'', JStr (trim (sourceCode_value p))),
                (asc ''language'', JStr (asc ''custom''))])
   \<and> requests' (compile_resume' out p) = requests' p"
  by (simp add: compile_nonempty compile'_nonempty fetch_def fetch'_def hideError_def
      hideError'_def setLoadingState_def setLoadingState'_def requests_clearErrorMarkers
      requests_compile_resume requests'_compile_resume' compileRequest_def compileRequest'_def)

theorem one_request_per_attempt_witness:
  "trim (editor_value (loaded (asc '' int x = ; ''))) \<noteq> []
   \<and> requests (compile (loaded (asc '' int x = ; ''))) = [compileRequest (asc ''int x = ;'')]
   \<and> body (compileRequest (asc ''int x = ;'')) =
        JObj [(asc ''source'', JStr (asc ''int x = ;'')), (asc ''language'', JStr (asc ''custom''))]
   \<and> trim (sourceCode_value (loaded' (asc '' int x = ; ''))) \<noteq> []
   \<and> requests' (compile' (loaded' (asc '' int x = ; ''))) = [compileRequest' (asc ''int x = ;'')]"
  using one_request_per_attempt
    [of "loaded (asc '' int x = ; '')" "Rejected []" "loaded' (asc '' int x = ; '')"]
  by (simp add: loaded_fields loaded'_fields trim_program program_nonempty)

subsection \<open>The trigger is given back\<close>

text \<open>
  C5: a call with a text that is not empty disables the trigger, and the rest of the
  attempt enables it again and hides the spinner, however the awaited calls end: with a
  rejection, or with any parsed response, whatever the handling of it runs into.
\<close>

theorem trigger_always_restored:
  "\<not> compileBtn_disabled (compile_resume out s)
   \<and> spinner_display (compile_resume out s) = asc ''none''
   \<and> (trim (editor_value s) \<noteq> [] \<longrightarrow>
        compileBtn_disabled (compile s)
        \<and> \<not> compileBtn_disabled (compile_resume out (compile s)))"
  by (simp add: compile_resume_def setLoadingState_def Let_def compile_nonempty fetch_def
      hideError_def)

theorem trigger_always_restored_witness:
  "trim (editor_value (loaded (asc '' int x = ; ''))) \<noteq> []
   \<and> compileBtn_disabled (compile (loaded (asc '' int x = ; '')))
   \<and> \<not> compileBtn_disabled
        (compile_resume (Rejected (asc ''Failed to fetch'')) (compile (loaded (asc '' int x = ; ''))))
   \<and> \<not> compileBtn_disabled
        (compile_resume (Parsed JNull []) (compile (loaded (asc '' int x = ; ''))))"
  using trigger_always_restored
    [of "Rejected (asc ''Failed to fetch'')" "loaded (asc '' int x = ; '')"]
    trigger_always_restored [of "Parsed JNull []" "loaded (asc '' int x = ; '')"]
  by (simp add: loaded_fields trim_program_nonempty)

subsection \<open>A response with an error\<close>

lemma plain_error_takes_failure_path:
  assumes "map_of fs (asc ''error'') = Some (JStr e)" and "e \<noteq> []"
  shows "errorContent' (compile_resume' (Parsed (JObj fs) tm) p) = e
     \<and> errorPanel_display' (compile_resume' (Parsed (JObj fs) tm) p) = asc ''block''
     \<and> resultOutput' (compile_resume' (Parsed (JObj fs) tm) p) = msg_failed
     \<and> bytecodeOutput' (compile_resume' (Parsed (JObj fs) tm) p) = msg_no_bytecode"
  by (simp add: compile_resume'_error [OF assms] setLoadingState'_def showError'_def)

lemma mixedResponse_takes_failure_path:
  "errorContent (compile_resume (Parsed (JObj mixedResponse) [])
      (compile (loaded (asc '' int x = ; '')))) = sampleError
   \<and> resultOutput (compile_resume (Parsed (JObj mixedResponse) [])
      (compile (loaded (asc '' int x = ; '')))) = Text msg_failed
   \<and> bytecodeOutput (compile_resume (Parsed (JObj mixedResponse) [])
      (compile (loaded (asc '' int x = ; '')))) = Text msg_no_bytecode"
proof -
  have "snd (highlightError sampleError
      ((compile (loaded (asc '' int x = ; '')))
         \<lparr> awaiting := awaiting (compile (loaded (asc '' int x = ; ''))) - 1 \<rparr>)) = None"
    by (rule highlightError_scrolls [where i = 1, OF locate_sampleError])
       (simp_all add: compile_nonempty_frame loaded_fields trim_program program_nonempty
         lineCount_program loaded_def)
  from error_takes_failure_path [OF mixedResponse_error sampleError_nonempty this]
  show ?thesis by simp
qed

lemma outsideError_nonempty: "outsideError \<noteq> []"
  by (simp add: outsideError_def asc_def)

text \<open>
  C4: a response whose \<open>error\<close> is a string that is not empty does not always end on
  the failure path.  When the position in the message is before the first line, as in
  \<open>bad token at 0:0\<close>, the editor throws on being asked to scroll there; the \<open>catch\<close>
  block then puts its own message in place of the compiler's and the texts of a failed
  connection into the two panels, on any page.  The script of the plain text area, which
  calls no editor, shows the message as it is.
\<close>

theorem position_before_text_ends_in_catch:
  "errorContent (compile_resume (errorResponse outsideError) s)
     = asc ''Network error: '' @ asc ''There is no line '' @ asc ''-1''
       @ asc '' in the document.''
   \<and> resultOutput (compile_resume (errorResponse outsideError) s) = Text msg_no_server
   \<and> bytecodeOutput (compile_resume (errorResponse outsideError) s) = Text msg_connection
   \<and> errorContent' (compile_resume' (errorResponse outsideError) p) = outsideError
   \<and> resultOutput' (compile_resume' (errorResponse outsideError) p) = msg_failed"
proof -
  have e: "map_of [(asc ''error'', JStr outsideError)] (asc ''error'') = Some (JStr outsideError)"
    by simp
  obtain s1 x where
    h: "highlightError outsideError (s\<lparr> awaiting := awaiting s - 1 \<rparr>) = (s1, x)"
    by (cases "highlightError outsideError (s\<lparr> awaiting := awaiting s - 1 \<rparr>)")
  from highlightError_below [OF locate_outsideError, of "s\<lparr> awaiting := awaiting s - 1 \<rparr>"] h
  have x: "x = Some (NoSuchLine (Finite (- 1)))" by simp
  have m: "exnMessage (errorResponse outsideError) (NoSuchLine (Finite (- 1)))
      = asc ''There is no line '' @ asc ''-1'' @ asc '' in the document.''"
    by (simp add: exnMessage_def positiveString_def asc_def)
  have "compile_resume (errorResponse outsideError) s =
      setLoadingState False
        (catchBlock (exnMessage (errorResponse outsideError) (NoSuchLine (Finite (- 1)))) s1)"
    using h x
    by (simp add: errorResponse_def compile_resume_error [OF e outsideError_nonempty])
  then have "compile_resume (errorResponse outsideError) s =
      setLoadingState False
        (catchBlock (asc ''There is no line '' @ asc ''-1'' @ asc '' in the document.'') s1)"
    by (simp only: m)
  moreover have "errorContent' (compile_resume' (errorResponse outsideError) p) = outsideError
      \<and> resultOutput' (compile_resume' (errorResponse outsideError) p) = msg_failed"
    using plain_error_takes_failure_path [OF e outsideError_nonempty, of "[]" p]
    by (simp add: errorResponse_def)
  ultimately show ?thesis
    by (simp add: setLoadingState_def catchBlock_def showError_def)
qed

subsection \<open>The position in an error message\<close>

lemma literal_Some_iff: "literal p s = Some r \<longleftrightarrow> s = p @ r"
  by (induction p s rule: literal.induct) auto

lemma leftmost_Some:
  "leftmost m t = Some r \<Longrightarrow>
   \<exists>pre suf. t = pre @ suf \<and> m suf = Some r
     \<and> (\<forall>pre' suf'. t = pre' @ suf' \<and> length pre' < length pre \<longrightarrow> m suf' = None)"
proof (induction t)
  case Nil
  then show ?case by auto
next
  case (Cons c cs)
  show ?case
  proof (cases "m (c # cs)")
    case (Some r')
    with Cons.prems have "m (c # cs) = Some r" by simp
    then have "c # cs = [] @ (c # cs) \<and> m (c # cs) = Some r
      \<and> (\<forall>pre' suf'. c # cs = pre' @ suf' \<and> length pre' < length ([]::jsstring)
            \<longrightarrow> m suf' = None)"
      by simp
    then show ?thesis by blast
  next
    case None
    with Cons.prems have "leftmost m cs = Some r" by simp
    from Cons.IH [OF this] obtain pre suf where
      d: "cs = pre @ suf" "m suf = Some r"
      and first: "\<forall>pre' suf'. cs = pre' @ suf' \<and> length pre' < length pre \<longrightarrow> m suf' = None"
      by blast
    have "\<forall>pre' suf'. c # cs = pre' @ suf' \<and> length pre' < length (c # pre) \<longrightarrow> m suf' = None"
    proof (intro allI impI)
      fix pre' suf'
      assume a: "c # cs = pre' @ suf' \<and> length pre' < length (c # pre)"
      show "m suf' = None"
      proof (cases pre')
        case Nil
        with a None show ?thesis by simp
      next
        case (Cons x xs)
        with a have "cs = xs @ suf' \<and> length xs < length pre" by simp
        with first show ?thesis by blast
      qed
    qed
    moreover have "c # cs = (c # pre) @ suf" using d by simp
    ultimately show ?thesis using d(2) by blast
  qed
qed

lemma leftmost_None: "leftmost m (pre @ suf) = None \<Longrightarrow> m suf = None"
  by (induction pre) (auto split: option.splits list.splits elim: leftmost.elims)


lemma asc_at: "asc ''at '' = [0x61, 0x74, 0x20]"
  by (simp add: asc_def)

lemma asc_colon: "asc '':'' = [0x3A]"
  by (simp add: asc_def)

lemma colon_no_digit: "\<not> isDigit 0x3A"
  by (simp add: isDigit_def)

lemma digit_no_space: "isDigit c \<Longrightarrow> \<not> isWhiteSpace c"
proof -
  have "\<not> (0x2000 \<le> c \<and> c \<le> 0x39)"
    using order_trans [of "0x2000" c "0x39"] by auto
  then show "isDigit c \<Longrightarrow> \<not> isWhiteSpace c"
    by (auto simp: isDigit_def isWhiteSpace_def)
qed

lemma digit_no_sign: "isDigit c \<Longrightarrow> c \<noteq> 0x2D \<and> c \<noteq> 0x2B"
  by (auto simp: isDigit_def)

lemma digitValue_nonneg: "isDigit c \<Longrightarrow> 0 \<le> digitValue c"
  by (simp add: isDigit_def digitValue_def word_le_def)

lemma foldl_decimal_nonneg:
  "list_all isDigit ds \<Longrightarrow> 0 \<le> a \<Longrightarrow>
   0 \<le> foldl (\<lambda>acc c. 10 * acc + digitValue c) a ds"
  by (induction ds arbitrary: a) (simp_all add: digitValue_nonneg)

lemma decimal_nonneg: "list_all isDigit ds \<Longrightarrow> 0 \<le> decimal ds"
  by (simp add: decimal_def foldl_decimal_nonneg)

lemma parseInt_digits:
  assumes "ds \<noteq> []" and "list_all isDigit ds"
  shows "parseInt ds = toNumber (decimal ds)"
proof -
  from assms obtain d ds' where ds: "ds = d # ds'" and d: "isDigit d"
    by (cases ds) auto
  have w: "dropWhile isWhiteSpace ds = ds"
    using ds d digit_no_space by simp
  have t: "takeWhile isDigit ds = ds"
    using assms(2) by (simp add: list_all_iff)
  show ?thesis
    using ds digit_no_sign [OF d] t assms(1) w
    by (simp add: parseInt_def Let_def)
qed

lemma takeWhile_digits_stop:
  "list_all isDigit g \<Longrightarrow> r = [] \<or> \<not> isDigit (hd r) \<Longrightarrow> takeWhile isDigit (g @ r) = g"
  by (cases r) (auto simp: list_all_iff)

lemma dropWhile_digits_stop:
  "list_all isDigit g \<Longrightarrow> r = [] \<or> \<not> isDigit (hd r) \<Longrightarrow> dropWhile isDigit (g @ r) = r"
  by (cases r) (auto simp: list_all_iff)

lemma lineMatch_here_Some:
  assumes "lineMatch_here s = Some (g1, g2)"
  shows "\<exists>rest. s = asc ''at '' @ g1 @ asc '':'' @ g2 @ rest
           \<and> g1 \<noteq> [] \<and> g2 \<noteq> [] \<and> list_all isDigit g1 \<and> list_all isDigit g2
           \<and> (rest = [] \<or> \<not> isDigit (hd rest))"
proof -
  from assms obtain r where r: "literal (asc ''at '') s = Some r"
    by (auto simp: lineMatch_here_def split: option.splits)
  from assms r have g1: "takeWhile isDigit r \<noteq> []"
    by (auto simp: lineMatch_here_def split: option.splits if_splits)
  from assms r g1 obtain r2 where r2: "literal (asc '':'') (dropWhile isDigit r) = Some r2"
    by (auto simp: lineMatch_here_def split: option.splits if_splits)
  from assms r g1 r2 have g2: "takeWhile isDigit r2 \<noteq> []"
    and eq: "g1 = takeWhile isDigit r" "g2 = takeWhile isDigit r2"
    by (auto simp: lineMatch_here_def split: option.splits if_splits)
  have s: "s = asc ''at '' @ r" using r by (simp add: literal_Some_iff)
  have d: "dropWhile isDigit r = asc '':'' @ r2" using r2 by (simp add: literal_Some_iff)
  have "r = takeWhile isDigit r @ dropWhile isDigit r" by simp
  also have "\<dots> = g1 @ asc '':'' @ r2" using d eq by simp
  also have "r2 = g2 @ dropWhile isDigit r2" using eq by simp
  finally have "s = asc ''at '' @ g1 @ asc '':'' @ g2 @ dropWhile isDigit r2"
    using s by simp
  moreover have "dropWhile isDigit r2 = [] \<or> \<not> isDigit (hd (dropWhile isDigit r2))"
    using hd_dropWhile [of isDigit r2] by blast
  moreover have "list_all isDigit g1" "list_all isDigit g2"
    using eq by (auto simp: list_all_iff dest: set_takeWhileD)
  ultimately show ?thesis using g1 g2 eq by blast
qed

lemma lineMatch_here_found:
  assumes "l \<noteq> []" "c \<noteq> []" "list_all isDigit l" "list_all isDigit c"
  shows "lineMatch_here (asc ''at '' @ l @ asc '':'' @ c @ post)
           = Some (l, c @ takeWhile isDigit post)"
proof -
  have a: "literal (asc ''at '') (asc ''at '' @ l @ asc '':'' @ c @ post)
             = Some (l @ asc '':'' @ c @ post)"
    by (simp add: literal_Some_iff)
  have t1: "takeWhile isDigit (l @ asc '':'' @ c @ post) = l"
    using assms(3) by (intro takeWhile_digits_stop) (simp_all add: asc_colon colon_no_digit)
  have d1: "dropWhile isDigit (l @ asc '':'' @ c @ post) = asc '':'' @ c @ post"
    using assms(3) by (intro dropWhile_digits_stop) (simp_all add: asc_colon colon_no_digit)
  have b: "literal (asc '':'') (asc '':'' @ c @ post) = Some (c @ post)"
    by (simp add: literal_Some_iff)
  have t2: "takeWhile isDigit (c @ post) = c @ takeWhile isDigit post"
    using assms(4) by (simp add: list_all_iff)
  show ?thesis
    using assms(1,2) by (simp add: lineMatch_here_def a t1 d1 b t2)
qed


lemma locate_Some:
  assumes "locate t = Some loc"
  shows "\<exists>pre l c post.
           t = pre @ asc ''at '' @ l @ asc '':'' @ c @ post
           \<and> l \<noteq> [] \<and> c \<noteq> [] \<and> list_all isDigit l \<and> list_all isDigit c
           \<and> (post = [] \<or> \<not> isDigit (hd post))
           \<and> (\<forall>pre' l' c' post'.
                 t = pre' @ asc ''at '' @ l' @ asc '':'' @ c' @ post'
                 \<and> l' \<noteq> [] \<and> c' \<noteq> [] \<and> list_all isDigit l' \<and> list_all isDigit c'
                 \<longrightarrow> length pre \<le> length pre')
           \<and> line loc = minus_num (parseInt l) 1 \<and> column loc = minus_num (parseInt c) 1
           \<and> parseInt l = toNumber (decimal l) \<and> parseInt c = toNumber (decimal c)
           \<and> (decimal l \<le> 2 ^ 53 \<longrightarrow> line loc = Finite (decimal l - 1))
           \<and> (decimal c \<le> 2 ^ 53 \<longrightarrow> column loc = Finite (decimal c - 1))
           \<and> \<not> isNaN (line loc) \<and> \<not> isNaN (column loc)"
proof -
  from assms obtain g1 g2 where m: "lineMatch t = Some (g1, g2)"
    and loc: "loc = \<lparr> line = minus_num (parseInt g1) 1, column = minus_num (parseInt g2) 1 \<rparr>"
    by (auto simp: locate_def split: option.splits)
  from m obtain pre suf where t: "t = pre @ suf" and h: "lineMatch_here suf = Some (g1, g2)"
    and first: "\<forall>pre' suf'. t = pre' @ suf' \<and> length pre' < length pre
                  \<longrightarrow> lineMatch_here suf' = None"
    unfolding lineMatch_def using leftmost_Some [of lineMatch_here t "(g1, g2)"] by blast
  from lineMatch_here_Some [OF h] obtain rest where
    suf: "suf = asc ''at '' @ g1 @ asc '':'' @ g2 @ rest"
    and g: "g1 \<noteq> []" "g2 \<noteq> []" "list_all isDigit g1" "list_all isDigit g2"
    and stop: "rest = [] \<or> \<not> isDigit (hd rest)"
    by blast
  have earliest: "\<forall>pre' l' c' post'.
      t = pre' @ asc ''at '' @ l' @ asc '':'' @ c' @ post'
      \<and> l' \<noteq> [] \<and> c' \<noteq> [] \<and> list_all isDigit l' \<and> list_all isDigit c'
      \<longrightarrow> length pre \<le> length pre'"
  proof (intro allI impI)
    fix pre' l' c' post'
    assume a: "t = pre' @ asc ''at '' @ l' @ asc '':'' @ c' @ post'
      \<and> l' \<noteq> [] \<and> c' \<noteq> [] \<and> list_all isDigit l' \<and> list_all isDigit c'"
    then have found: "lineMatch_here (asc ''at '' @ l' @ asc '':'' @ c' @ post') \<noteq> None"
      by (simp add: lineMatch_here_found)
    show "length pre \<le> length pre'"
    proof (rule ccontr)
      assume "\<not> length pre \<le> length pre'"
      then have "length pre' < length pre" by simp
      with first a have "lineMatch_here (asc ''at '' @ l' @ asc '':'' @ c' @ post') = None"
        by blast
      with found show False by simp
    qed
  qed
  have p: "parseInt g1 = toNumber (decimal g1)" "parseInt g2 = toNumber (decimal g2)"
    using g by (simp_all add: parseInt_digits)
  have v: "line loc = minus_num (parseInt g1) 1" "column loc = minus_num (parseInt g2) 1"
    using loc by simp_all
  have n: "\<not> isNaN (line loc)" "\<not> isNaN (column loc)"
    using v p by (simp_all add: isNaN_def minus_num_not_NaN toNumber_not_NaN)
  have x: "decimal ds \<le> 2 ^ 53 \<longrightarrow> minus_num (toNumber (decimal ds)) 1 = Finite (decimal ds - 1)"
    if "list_all isDigit ds" for ds
    using decimal_nonneg [OF that] by (simp add: toNumber_exact)
  have "decimal g1 \<le> 2 ^ 53 \<longrightarrow> line loc = Finite (decimal g1 - 1)"
    "decimal g2 \<le> 2 ^ 53 \<longrightarrow> column loc = Finite (decimal g2 - 1)"
    using v p x g by simp_all
  with t suf g stop earliest p v n show ?thesis by blast
qed

lemma locate_found:
  assumes "t = pre @ asc ''at '' @ l @ asc '':'' @ c @ post"
    and "l \<noteq> []" "c \<noteq> []" "list_all isDigit l" "list_all isDigit c"
  shows "locate t \<noteq> None"
proof
  assume "locate t = None"
  then have "lineMatch t = None"
    by (auto simp: locate_def split: option.splits)
  then have "lineMatch_here (asc ''at '' @ l @ asc '':'' @ c @ post) = None"
    unfolding lineMatch_def assms(1) by (rule leftmost_None)
  then show False
    using assms(2-5) by (simp add: lineMatch_here_found)
qed

lemma locate_no_position: "locate (asc ''Unexpected end of input'') = None"
  by (simp add: locate_def lineMatch_def lineMatch_here_def asc_def)

lemma locate_parse_error:
  "locate (asc ''Parse error at 3:7'') = Some \<lparr> line = Finite 2, column = Finite 6 \<rparr>"
  by (simp add: locate_def lineMatch_def lineMatch_here_def asc_def
      isDigit_def parseInt_def isWhiteSpace_def decimal_def digitValue_def toNumber_exact)

text \<open>A line number past \<open>2^53\<close> is read as the nearest double, and the difference rounded.\<close>

lemma bitLength_example: "bitLength 9007199254740993 = 54"
  by simp

lemma locate_rounds:
  "locate (asc ''overflow at 9007199254740993:1'')
     = Some \<lparr> line = Finite 9007199254740991, column = Finite 0 \<rparr>"
proof -
  have "roundNat 9007199254740993 = 9007199254740992"
    by (simp add: roundNat_def Let_def bitLength_example del: bitLength.simps)
  then have "toNumber 9007199254740993 = Finite 9007199254740992"
    by (simp add: toNumber_def maxDouble_def)
  then show ?thesis
    by (simp add: locate_def lineMatch_def lineMatch_here_def asc_def
        isDigit_def parseInt_def isWhiteSpace_def decimal_def digitValue_def toNumber_exact)
qed

text \<open>
  The pattern needs both numerals: a message with no numeral for the column has no
  position at all, so no line is found for it either.
\<close>

theorem locate_needs_column:
  "locate (asc ''Parse error at 3:x'') = None \<and> locate (asc ''Parse error at 3:'') = None"
  by (simp add: locate_def lineMatch_def lineMatch_here_def asc_def isDigit_def)

text \<open>
  C3: a position is found exactly when the message contains \<open>at\<close>, a space, a decimal
  numeral, a colon and a decimal numeral.  The position comes from the first such place,
  with the numerals read to their ends: line and column are what \<open>parseInt\<close> makes of
  them, less one, which up to \<open>2^53\<close> is the integer written, less one.  A position found
  has a line and a column that are numbers, never \<open>NaN\<close>.  The message
  \<open>Parse error at 3:7\<close> gives line 2 with column 6, the message
  \<open>Unexpected end of input\<close> gives nothing.
\<close>

theorem locate_position:
  "((locate t \<noteq> None) =
      (\<exists>pre l c post.
         t = pre @ asc ''at '' @ l @ asc '':'' @ c @ post
         \<and> l \<noteq> [] \<and> c \<noteq> [] \<and> list_all isDigit l \<and> list_all isDigit c))
   \<and> (\<forall>loc. locate t = Some loc \<longrightarrow>
        (\<exists>pre l c post.
           t = pre @ asc ''at '' @ l @ asc '':'' @ c @ post
           \<and> l \<noteq> [] \<and> c \<noteq> [] \<and> list_all isDigit l \<and> list_all isDigit c
           \<and> (post = [] \<or> \<not> isDigit (hd post))
           \<and> (\<forall>pre' l' c' post'.
                 t = pre' @ asc ''at '' @ l' @ asc '':'' @ c' @ post'
                 \<and> l' \<noteq> [] \<and> c' \<noteq> [] \<and> list_all isDigit l' \<and> list_all isDigit c'
                 \<longrightarrow> length pre \<le> length pre')
           \<and> line loc = minus_num (parseInt l) 1 \<and> column loc = minus_num (parseInt c) 1
           \<and> parseInt l = toNumber (decimal l) \<and> parseInt c = toNumber (decimal c)
           \<and> (decimal l \<le> 2 ^ 53 \<longrightarrow> line loc = Finite (decimal l - 1))
           \<and> (decimal c \<le> 2 ^ 53 \<longrightarrow> column loc = Finite (decimal c - 1))
           \<and> \<not> isNaN (line loc) \<and> \<not> isNaN (column loc)))
   \<and> locate (asc ''Parse error at 3:7'') = Some \<lparr> line = Finite 2, column = Finite 6 \<rparr>
   \<and> locate (asc ''Unexpected end of input'') = None"
proof (intro conjI allI impI)
  show "(locate t \<noteq> None) =
      (\<exists>pre l c post.
         t = pre @ asc ''at '' @ l @ asc '':'' @ c @ post
         \<and> l \<noteq> [] \<and> c \<noteq> [] \<and> list_all isDigit l \<and> list_all isDigit c)"
  proof
    assume "locate t \<noteq> None"
    then obtain loc where "locate t = Some loc" by auto
    from locate_Some [OF this] show "\<exists>pre l c post.
         t = pre @ asc ''at '' @ l @ asc '':'' @ c @ post
         \<and> l \<noteq> [] \<and> c \<noteq> [] \<and> list_all isDigit l \<and> list_all isDigit c"
      by blast
  next
    assume "\<exists>pre l c post.
         t = pre @ asc ''at '' @ l @ asc '':'' @ c @ post
         \<and> l \<noteq> [] \<and> c \<noteq> [] \<and> list_all isDigit l \<and> list_all isDigit c"
    then show "locate t \<noteq> None"
      using locate_found by blast
  qed
next
  fix loc
  assume "locate t = Some loc"
  then show "\<exists>pre l c post.
           t = pre @ asc ''at '' @ l @ asc '':'' @ c @ post
           \<and> l \<noteq> [] \<and> c \<noteq> [] \<and> list_all isDigit l \<and> list_all isDigit c
           \<and> (post = [] \<or> \<not> isDigit (hd post))
           \<and> (\<forall>pre' l' c' post'.
                 t = pre' @ asc ''at '' @ l' @ asc '':'' @ c' @ post'
                 \<and> l' \<noteq> [] \<and> c' \<noteq> [] \<and> list_all isDigit l' \<and> list_all isDigit c'
                 \<longrightarrow> length pre \<le> length pre')
           \<and> line loc = minus_num (parseInt l) 1 \<and> column loc = minus_num (parseInt c) 1
           \<and> parseInt l = toNumber (decimal l) \<and> parseInt c = toNumber (decimal c)
           \<and> (decimal l \<le> 2 ^ 53 \<longrightarrow> line loc = Finite (decimal l - 1))
           \<and> (decimal c \<le> 2 ^ 53 \<longrightarrow> column loc = Finite (decimal c - 1))
           \<and> \<not> isNaN (line loc) \<and> \<not> isNaN (column loc)"
    by (rule locate_Some)
next
  show "locate (asc ''Parse error at 3:7'') = Some \<lparr> line = Finite 2, column = Finite 6 \<rparr>"
    by (rule locate_parse_error)
next
  show "locate (asc ''Unexpected end of input'') = None"
    by (rule locate_no_position)
qed


theorem locate_position_witness:
  "locate (asc ''Parse error at 3:7'') = Some \<lparr> line = Finite 2, column = Finite 6 \<rparr>
   \<and> (\<exists>pre l c post.
         asc ''Parse error at 3:7'' = pre @ asc ''at '' @ l @ asc '':'' @ c @ post
         \<and> l \<noteq> [] \<and> c \<noteq> [] \<and> list_all isDigit l \<and> list_all isDigit c
         \<and> minus_num (parseInt l) 1 = Finite 2 \<and> minus_num (parseInt c) 1 = Finite 6)"
proof -
  have h: "locate (asc ''Parse error at 3:7'') = Some \<lparr> line = Finite 2, column = Finite 6 \<rparr>"
    by (rule locate_parse_error)
  from locate_position [of "asc ''Parse error at 3:7''"] h
  obtain pre l c post where
    "asc ''Parse error at 3:7'' = pre @ asc ''at '' @ l @ asc '':'' @ c @ post"
    "l \<noteq> []" "c \<noteq> []" "list_all isDigit l" "list_all isDigit c"
    "line \<lparr> line = Finite 2, column = Finite 6 \<rparr> = minus_num (parseInt l) 1"
    "column \<lparr> line = Finite 2, column = Finite 6 \<rparr> = minus_num (parseInt c) 1"
    by blast
  then have "asc ''Parse error at 3:7'' = pre @ asc ''at '' @ l @ asc '':'' @ c @ post
      \<and> l \<noteq> [] \<and> c \<noteq> [] \<and> list_all isDigit l \<and> list_all isDigit c
      \<and> minus_num (parseInt l) 1 = Finite 2 \<and> minus_num (parseInt c) 1 = Finite 6"
    by simp
  with h show ?thesis by blast
qed

subsection \<open>Names of operators inside longer words\<close>

text \<open>
  C8: the name of an operator is wrapped as an operator wherever it occurs, also inside a
  longer word.  In the instruction that stores the variable \<open>toAdd\<close> the \<open>Add\<close> of the
  name is wrapped, and the quotes of the inserted tag then keep the pattern for variable
  instructions from matching.
\<close>

theorem operator_name_inside_word_is_tagged:
  \<open>highlightBytecode (asc ''StoreVariable("toAdd")'')
     = asc ''StoreVariable("to<span class="bytecode-op">Add</span>")''
   \<and> highlightBytecode (asc ''StoreVariable("total")'')
     = asc ''<span class="bytecode-var">StoreVariable</span>("total")''\<close>
  by (simp add: highlightBytecode_def push_here_def op_here_def jump_here_def
      variable_here_def asc_def isDigit_def)

subsection \<open>A result that is falsy\<close>

lemma formatBytecode_one_instruction:
  "\<exists>html. formatBytecode (Some (JArr [JStr i])) = Inr html"
  by (simp add: formatBytecode_def bytecodeLine_def)

lemma zeroResponse_properties:
  "getProperty zeroResponse (asc ''error'') = Inr None"
  "getProperty zeroResponse (asc ''result'') = Inr (Some (JNum 0))"
  "getProperty zeroResponse (asc ''bytecode'') = Inr (Some (JArr [JStr (asc ''Push(0)'')]))"
  by (simp_all add: zeroResponse_def asc_def)

text \<open>
  C7: a result of zero is present in the response and is not shown: \<open>0 || "No output"\<close>
  is the placeholder.  This holds for both scripts.
\<close>

theorem zero_result_shows_placeholder:
  "getProperty zeroResponse (asc ''result'') = Inr (Some (JNum 0))
   \<and> resultOutput (compile_resume (Parsed zeroResponse []) s)
       = Html (resultHtml (asc ''No output''))
   \<and> resultOutput' (compile_resume' (Parsed zeroResponse []) p)
       = [0x2705] @ asc '' Result: '' @ asc ''No output''"
proof -
  obtain html where h: "formatBytecode (Some (JArr [JStr (asc ''Push(0)'')])) = Inr html"
    using formatBytecode_one_instruction by blast
  have "bytecodeText' (Some (JArr [JStr (asc ''Push(0)'')])) = Inr (asc ''Push(0)'')"
    by (simp add: bytecodeText'_def asc_def)
  with h show ?thesis
    by (simp add: compile_resume_def compile_resume'_def tryBlock_def tryBlock'_def
        handleData_def handleData'_def zeroResponse_properties animateResult_def
        setLoadingState_def setLoadingState'_def Let_def)
qed


subsection \<open>Calls while an attempt is suspended\<close>

text \<open>
  C1: a call of \<open>compile\<close> while an attempt is suspended is not ignored.  After one
  Ctrl+Enter the button is disabled and one attempt is suspended; a click is then without
  effect, but a second Ctrl+Enter sends a second request and suspends a second attempt.
\<close>

theorem second_call_while_compiling_is_not_ignored:
  "awaiting (keydown ctrlEnter (loaded (asc '' int x = ; ''))) = 1
   \<and> compileBtn_disabled (keydown ctrlEnter (loaded (asc '' int x = ; '')))
   \<and> requests (keydown ctrlEnter (loaded (asc '' int x = ; '')))
       = [compileRequest (asc ''int x = ;'')]
   \<and> compileBtn_click (keydown ctrlEnter (loaded (asc '' int x = ; '')))
       = keydown ctrlEnter (loaded (asc '' int x = ; ''))
   \<and> requests (keydown ctrlEnter (keydown ctrlEnter (loaded (asc '' int x = ; ''))))
       = [compileRequest (asc ''int x = ;''), compileRequest (asc ''int x = ;'')]
   \<and> awaiting (keydown ctrlEnter (keydown ctrlEnter (loaded (asc '' int x = ; '')))) = 2"
  by (simp add: keydown_ctrlEnter compile_nonempty_frame loaded_fields trim_program
      program_nonempty click_while_disabled)


subsection \<open>The tracked markers\<close>

lemma clearErrorMarkers_idempotent:
  "clearErrorMarkers (clearErrorMarkers s) = clearErrorMarkers s"
  by (simp add: clearErrorMarkers_def)

lemma editor_marks_fold_clearMarker:
  "editor_marks (fold clearMarker ms s) =
     filter (\<lambda>m. TextMarker (fst m) \<notin> set ms) (editor_marks s)"
proof (induction ms arbitrary: s)
  case Nil
  show ?case by simp
next
  case (Cons m ms)
  show ?case by (cases m) (auto simp: Cons.IH intro: filter_cong)
qed

lemma editor_lineClasses_fold_clearMarker:
  "editor_lineClasses (fold clearMarker ms s) =
     filter (\<lambda>l. LineHandle l \<notin> set ms) (editor_lineClasses s)"
proof (induction ms arbitrary: s)
  case Nil
  show ?case by simp
next
  case (Cons m ms)
  show ?case by (cases m) (auto simp: Cons.IH intro: filter_cong)
qed

lemma clearErrorMarkers_removes_tracked:
  "TextMarker h \<in> set (errorMarkers s) \<Longrightarrow> h \<notin> fst ` set (editor_marks (clearErrorMarkers s))"
  "LineHandle h \<in> set (errorMarkers s) \<Longrightarrow>
     h \<notin> set (editor_lineClasses (clearErrorMarkers s))"
  by (auto simp: clearErrorMarkers_def editor_marks_fold_clearMarker
      editor_lineClasses_fold_clearMarker)

lemma markers_added_by_attempt:
  "\<exists>ms. errorMarkers (compile_resume out s) = errorMarkers s @ ms \<and> length ms \<le> 2"
proof -
  have h: "\<exists>ms. errorMarkers (fst (highlightError e s')) = errorMarkers s' @ ms
             \<and> length ms \<le> 2" for e s'
    by (simp add: errorMarkers_highlightError split: option.split)
  have w: "\<exists>ms. errorMarkers (fst (showErrorWithHighlighting v s')) = errorMarkers s' @ ms
             \<and> length ms \<le> 2" for v s'
    using h by (cases v) (simp_all add: showErrorWithHighlighting_def showError_def
        split: sum.split)
  have d: "\<exists>ms. errorMarkers (fst (handleData data s')) = errorMarkers s' @ ms \<and> length ms \<le> 2"
    for data s'
    using w [of "the (projr (getProperty data (asc ''error'')))" s']
    by (auto simp: handleData_def animateResult_def Let_def
        split: sum.split prod.split option.split)
  have t: "\<exists>ms. errorMarkers (fst (tryBlock out s')) = errorMarkers s' @ ms \<and> length ms \<le> 2"
    for s'
    using d by (cases out) (simp_all add: tryBlock_def)
  obtain s1 e where tb: "tryBlock out (s\<lparr> awaiting := awaiting s - 1 \<rparr>) = (s1, e)"
    by (cases "tryBlock out (s\<lparr> awaiting := awaiting s - 1 \<rparr>)")
  with t [of "s\<lparr> awaiting := awaiting s - 1 \<rparr>"]
  have "\<exists>ms. errorMarkers s1 = errorMarkers s @ ms \<and> length ms \<le> 2" by simp
  with tb show ?thesis
    by (cases e) (simp_all add: compile_resume_def catchBlock_def showError_def
        setLoadingState_def)
qed

lemma one_attempt_at_most_two_markers:
  assumes "trim (editor_value s) \<noteq> []"
  shows "errorMarkers (compile s) = [] \<and> length (errorMarkers (compile_resume out (compile s))) \<le> 2"
  using markers_added_by_attempt [of out "compile s"] assms
  by (auto simp: compile_nonempty_frame)

text \<open>
  C6: the tracked set does not stay within the markers of one attempt.  With two
  attempts suspended at the same time (Ctrl+Enter twice), each is cleared for at its own
  start only, and when both responses report a position the markers of both are tracked:
  four (the handle of the same line twice, and two marks), where one attempt leaves two.
\<close>

theorem overlapping_attempts_track_four_markers:
  "errorMarkers
     (run [KeyDown ctrlEnter, KeyDown ctrlEnter,
           Settled (errorResponse sampleError), Settled (errorResponse sampleError)]
        (loaded (asc '' int x = ; '')))
     = [LineHandle 0, TextMarker 0, LineHandle 0, TextMarker 1]
   \<and> errorMarkers
     (run [KeyDown ctrlEnter, Settled (errorResponse sampleError)]
        (loaded (asc '' int x = ; '')))
     = [LineHandle 0, TextMarker 0]"
  by (simp add: run_def keydown_ctrlEnter compile_nonempty_frame loaded_fields trim_program
      program_nonempty compile_resume_sampleError lineCount_program)

subsection \<open>Attempts started by clicks do not overlap\<close>

lemma awaiting_showErrorWithHighlighting:
  "showErrorWithHighlighting v s = (s1, e) \<Longrightarrow> awaiting s1 = awaiting s"
  by (auto simp: showErrorWithHighlighting_def showError_def
      split: jsval.splits sum.splits dest: highlightError_fields(1))

lemma awaiting_handleData:
  "handleData d s = (s1, e) \<Longrightarrow> awaiting s1 = awaiting s"
  by (auto simp: handleData_def animateResult_def Let_def
      split: sum.splits prod.splits option.splits if_splits
      dest: awaiting_showErrorWithHighlighting)

lemma awaiting_tryBlock:
  "tryBlock out s = (s1, e) \<Longrightarrow> awaiting s1 = awaiting s"
  by (cases out) (auto simp: tryBlock_def dest: awaiting_handleData)

lemma awaiting_compile_resume: "awaiting (compile_resume out s) = awaiting s - 1"
proof -
  obtain s1 e where t: "tryBlock out (s\<lparr> awaiting := awaiting s - 1 \<rparr>) = (s1, e)"
    by (cases "tryBlock out (s\<lparr> awaiting := awaiting s - 1 \<rparr>)")
  from awaiting_tryBlock [OF t] have "awaiting s1 = awaiting s - 1" by simp
  with t show ?thesis
    by (cases e) (simp_all add: compile_resume_def catchBlock_def showError_def
        setLoadingState_def)
qed

lemma compileBtn_enabled_compile_resume: "\<not> compileBtn_disabled (compile_resume out s)"
  by (simp add: compile_resume_def setLoadingState_def Let_def)

lemma single_flight_step:
  assumes "single_flight s" and "noKey e"
  shows "single_flight (step e s)"
proof (cases e)
  case Click
  show ?thesis
  proof (cases "compileBtn_disabled s")
    case True
    with assms Click show ?thesis by (simp add: compileBtn_click_def)
  next
    case False
    with assms have idle: "awaiting s = 0" by (auto simp: single_flight_def)
    show ?thesis
    proof (cases "trim (editor_value s) = []")
      case True
      with assms False Click show ?thesis
        by (simp add: compileBtn_click_def compile_empty showError_def single_flight_def)
    next
      case nonempty: False
      with False Click idle show ?thesis
        by (simp add: compileBtn_click_def compile_nonempty_frame single_flight_def)
    qed
  qed
next
  case (KeyDown k)
  with assms show ?thesis by simp
next
  case EditorKey
  with assms show ?thesis by simp
next
  case (Settled out)
  show ?thesis
  proof (cases "awaiting s = 0")
    case True
    with assms Settled show ?thesis by simp
  next
    case False
    with assms have one: "awaiting s = 1" and none: "errorMarkers s = []"
      by (auto simp: single_flight_def)
    from markers_added_by_attempt [of out s] none
    have "length (errorMarkers (compile_resume out s)) \<le> 2" by auto
    with one Settled show ?thesis
      by (simp add: single_flight_def awaiting_compile_resume
          compileBtn_enabled_compile_resume)
  qed
qed

lemma single_flight_fold:
  "single_flight s \<Longrightarrow> list_all noKey events \<Longrightarrow> single_flight (fold step events s)"
  by (induction events arbitrary: s) (simp_all add: single_flight_step)

lemma single_flight_loaded: "single_flight (loaded t)"
  by (simp add: single_flight_def loaded_def)

lemma clicks_never_overlap:
  assumes "list_all noKey events"
  shows "awaiting (run events (loaded t)) \<le> 1
     \<and> length (errorMarkers (run events (loaded t))) \<le> 2
     \<and> (awaiting (run events (loaded t)) = 1
          \<longrightarrow> step Click (run events (loaded t)) = run events (loaded t))"
  using single_flight_fold [OF single_flight_loaded assms, of t]
  by (auto simp: run_def single_flight_def compileBtn_click_def)

end
